theory Spec2Isabelle
  imports Main
begin

text \<open>
  A model of the three MCP servers of the repository, each a Python script with one tool:
  \<^item> family_check_days.py, \<open>get_health_records_by_recent_days(name, day)\<close>: the health
    records of the last days of a family member;
  \<^item> family_history_check.py, \<open>analyze_health_data(user_name, user_query)\<close>: a
    retrieval over the history of a family member;
  \<^item> family_member_check.py, \<open>list_family_members()\<close>: the names of the family.

  Each tool fetches the roster of the family from a directory service; the first two
  look the caller's name up in it and query a second service with the uid they found.
  The functions below follow the sources function by function. What a function takes
  from the interpreter or from a library is a field of \<open>runtime\<close>; what the services
  answer is a field of \<open>world\<close>; a tool returns the requests it issued together with
  its result. Logging is left out. The texts of the sources are Chinese: such a
  string literal is written as the list of its code points, under a name or with its
  meaning in the surrounding text.
\<close>

section \<open>Values of the Python runtime\<close>

text \<open>
  A Python \<open>str\<close> is a sequence of Unicode code points: \<open>ord(c) < 128\<close>, \<open>strip\<close>,
  \<open>lower\<close> and the regular expression \<open>[^a-z0-9]\<close> of the sources all work on code
  points, so a string is the list of its code points. \<open>ascii\<close> reads a literal.
\<close>

type_synonym pstr = "nat list"

definition ascii :: "string \<Rightarrow> pstr" where
  "ascii s = map of_char s"

text \<open>
  What \<open>resp.json()\<close> returns, and what a tool can be called with: \<open>None\<close>, a
  \<open>bool\<close>, an \<open>int\<close>, a \<open>float\<close>, a \<open>str\<close>, a \<open>list\<close> or a \<open>dict\<close> with string
  keys (in insertion order, which is the order \<open>items()\<close> and \<open>values()\<close> iterate in;
  the keys of a dict are distinct, and \<open>get\<close> is \<open>map_of\<close>).
  A float is kept opaque: the sources only print it, compare it with an \<open>int\<close> and
  truncate it, and those three operations belong to the interpreter.
\<close>

typedecl pyfloat

datatype json =
    JNull
  | JBool bool
  | JInt int
  | JFloat pyfloat
  | JStr pstr
  | JList "json list"
  | JDict "(pstr \<times> json) list"

text \<open>The exceptions the modelled code can raise by itself; each carries the offending value.\<close>

datatype pyerr = AttributeError json | TypeError json | KeyError json | IndexError json

text \<open>An operation that may raise: \<open>Inl\<close> is the exception.\<close>

definition bind_e :: "pyerr + 'a \<Rightarrow> ('a \<Rightarrow> pyerr + 'b) \<Rightarrow> pyerr + 'b" where
  "bind_e m f = (case m of Inl e \<Rightarrow> Inl e | Inr x \<Rightarrow> f x)"

text \<open>
  What the sources take from outside the repository and the embedding cannot compute:
  \<^item> \<open>lazy_pinyin\<close>: pypinyin's transliteration, a list of readings;
  \<^item> \<open>unicode_lower\<close>: \<open>str.lower()\<close> of a string that has a non-ASCII character;
  \<^item> \<open>unicode_decimal\<close>: the decimal value of a non-ASCII digit, which \<open>int()\<close> accepts;
  \<^item> \<open>int_max_str_digits\<close>: the interpreter's limit on the digits \<open>int()\<close> parses
    (0: no limit);
  \<^item> \<open>float_str\<close>, \<open>float_eq_int\<close>, \<open>float_trunc\<close>: \<open>str(f)\<close>, \<open>f == k\<close> and
    \<open>int(f)\<close> of a float (\<open>None\<close>: it raises, as on \<open>nan\<close>);
  \<^item> \<open>container_str\<close>: \<open>str()\<close> of a list or a dict;
  \<^item> \<open>exc_str\<close>: the message \<open>str(e)\<close> of an exception;
  \<^item> \<open>retrieval_report\<close>: the text analyze_health_data builds from a retrieval
    response (member name, uid, query, response); it formats floats with \<open>:.4f\<close>,
    and may raise, which is the message of the exception.
\<close>

record runtime =
  lazy_pinyin :: "pstr \<Rightarrow> pstr list"
  unicode_lower :: "pstr \<Rightarrow> pstr"
  unicode_decimal :: "nat \<Rightarrow> nat option"
  int_max_str_digits :: nat
  float_str :: "pyfloat \<Rightarrow> pstr"
  float_eq_int :: "pyfloat \<Rightarrow> int \<Rightarrow> bool"
  float_trunc :: "pyfloat \<Rightarrow> int option"
  container_str :: "json \<Rightarrow> pstr"
  exc_str :: "pyerr \<Rightarrow> pstr"
  retrieval_report :: "pstr \<Rightarrow> pstr \<Rightarrow> json \<Rightarrow> json \<Rightarrow> pstr + pstr"

subsection \<open>Strings\<close>

text \<open>\<open>str.isspace\<close> of one character: the whitespace \<open>strip()\<close> removes.\<close>

definition py_isspace :: "nat \<Rightarrow> bool" where
  "py_isspace c =
     ((9 \<le> c \<and> c \<le> 13) \<or> (28 \<le> c \<and> c \<le> 32) \<or> c = 133 \<or> c = 160 \<or> c = 5760
      \<or> (8192 \<le> c \<and> c \<le> 8202) \<or> c = 8232 \<or> c = 8233 \<or> c = 8239 \<or> c = 8287
      \<or> c = 12288)"

definition py_strip :: "pstr \<Rightarrow> pstr" where
  "py_strip s = rev (dropWhile py_isspace (rev (dropWhile py_isspace s)))"

definition is_ascii :: "pstr \<Rightarrow> bool" where
  "is_ascii s = list_all (\<lambda>c. c < 128) s"

definition ascii_lower :: "nat \<Rightarrow> nat" where
  "ascii_lower c = (if 65 \<le> c \<and> c \<le> 90 then c + 32 else c)"

definition py_lower :: "runtime \<Rightarrow> pstr \<Rightarrow> pstr" where
  "py_lower rt s = (if is_ascii s then map ascii_lower s else unicode_lower rt s)"

text \<open>The characters \<open>re.sub(r"[^a-z0-9]", "", s)\<close> keeps.\<close>

definition is_az09 :: "nat \<Rightarrow> bool" where
  "is_az09 c = ((97 \<le> c \<and> c \<le> 122) \<or> (48 \<le> c \<and> c \<le> 57))"

definition is_digit :: "nat \<Rightarrow> bool" where
  "is_digit c = (48 \<le> c \<and> c \<le> 57)"

text \<open>An ASCII letter or digit of either case.\<close>

definition is_ascii_alnum :: "nat \<Rightarrow> bool" where
  "is_ascii_alnum c = ((65 \<le> c \<and> c \<le> 90) \<or> is_az09 c)"

fun join :: "pstr \<Rightarrow> pstr list \<Rightarrow> pstr" where
  "join sep [] = []"
| "join sep [x] = x"
| "join sep (x # y # ys) = x @ sep @ join sep (y # ys)"

subsection \<open>Integers\<close>

fun digits_of :: "nat \<Rightarrow> pstr" where
  "digits_of n = (if n < 10 then [48 + n] else digits_of (n div 10) @ [48 + n mod 10])"

declare digits_of.simps [simp del]

definition str_of_int :: "int \<Rightarrow> pstr" where
  "str_of_int i = (if i < 0 then 45 # digits_of (nat (- i)) else digits_of (nat i))"

text \<open>
  \<open>int(s)\<close> of a string, base 10. A string with a non-ASCII character is first
  rewritten: a character below 127 stays, Unicode whitespace becomes a space, a Unicode
  decimal digit its ASCII digit, anything else \<open>?\<close> (which no literal contains). Then:
  whitespace, an optional sign, digits with single underscores between them, whitespace.
\<close>

definition to_ascii_decimal :: "runtime \<Rightarrow> pstr \<Rightarrow> pstr" where
  "to_ascii_decimal rt s =
     (if is_ascii s then s
      else map (\<lambda>c. if c < 127 then c
                    else if py_isspace c then 32
                    else (case unicode_decimal rt c of Some d \<Rightarrow> 48 + d | None \<Rightarrow> 63)) s)"

definition is_c_space :: "nat \<Rightarrow> bool" where
  "is_c_space c = ((9 \<le> c \<and> c \<le> 13) \<or> c = 32)"

fun digits_value :: "nat \<Rightarrow> pstr \<Rightarrow> nat option" where
  "digits_value acc [] = Some acc"
| "digits_value acc (c # cs) =
     (if is_digit c then digits_value (acc * 10 + (c - 48)) cs
      else if c = 95 then
        (case cs of
           [] \<Rightarrow> None
         | d # _ \<Rightarrow> if is_digit d then digits_value acc cs else None)
      else None)"

definition parse_int :: "runtime \<Rightarrow> pstr \<Rightarrow> int option" where
  "parse_int rt s =
     (let t = dropWhile is_c_space (to_ascii_decimal rt s);
          neg = (case t of c # _ \<Rightarrow> c = 45 | [] \<Rightarrow> False);
          u = (case t of c # cs \<Rightarrow> if c = 45 \<or> c = 43 then cs else t | [] \<Rightarrow> []);
          body = takeWhile (\<lambda>c. \<not> is_c_space c) u;
          rest = dropWhile (\<lambda>c. \<not> is_c_space c) u
      in if \<not> list_all is_c_space rest then None
         else if int_max_str_digits rt \<noteq> 0
                 \<and> int_max_str_digits rt < length (filter is_digit body) then None
         else (case body of
                 [] \<Rightarrow> None
               | c # _ \<Rightarrow>
                   if \<not> is_digit c then None
                   else (case digits_value 0 body of
                           None \<Rightarrow> None
                         | Some n \<Rightarrow> Some (if neg then - int n else int n))))"

subsection \<open>Built-in operations on values\<close>

text \<open>\<open>str(v)\<close>, which is also what an f-string prints for \<open>{v}\<close>.\<close>

definition py_str :: "runtime \<Rightarrow> json \<Rightarrow> pstr" where
  "py_str rt v =
     (case v of
        JNull \<Rightarrow> ascii ''None''
      | JBool b \<Rightarrow> (if b then ascii ''True'' else ascii ''False'')
      | JInt i \<Rightarrow> str_of_int i
      | JFloat f \<Rightarrow> float_str rt f
      | JStr s \<Rightarrow> s
      | JList xs \<Rightarrow> container_str rt v
      | JDict d \<Rightarrow> container_str rt v)"

text \<open>The truth value of \<open>v\<close> in a condition, in \<open>not v\<close> and in \<open>v or d\<close>.\<close>

definition truthy :: "runtime \<Rightarrow> json \<Rightarrow> bool" where
  "truthy rt v =
     (case v of
        JNull \<Rightarrow> False
      | JBool b \<Rightarrow> b
      | JInt i \<Rightarrow> i \<noteq> 0
      | JFloat f \<Rightarrow> \<not> float_eq_int rt f 0
      | JStr s \<Rightarrow> s \<noteq> []
      | JList xs \<Rightarrow> xs \<noteq> []
      | JDict d \<Rightarrow> d \<noteq> [])"

definition py_or :: "runtime \<Rightarrow> json \<Rightarrow> json \<Rightarrow> json" where
  "py_or rt v d = (if truthy rt v then v else d)"

text \<open>\<open>v == k\<close> for an int \<open>k\<close>: \<open>True == 1\<close> and \<open>False == 0\<close> hold in Python.\<close>

definition py_eq_int :: "runtime \<Rightarrow> json \<Rightarrow> int \<Rightarrow> bool" where
  "py_eq_int rt v k =
     (case v of
        JInt i \<Rightarrow> i = k
      | JBool b \<Rightarrow> (if b then 1 else 0) = k
      | JFloat f \<Rightarrow> float_eq_int rt f k
      | _ \<Rightarrow> False)"

text \<open>\<open>int(v)\<close>; \<open>None\<close> when it raises (TypeError, ValueError or OverflowError).\<close>

definition py_int :: "runtime \<Rightarrow> json \<Rightarrow> int option" where
  "py_int rt v =
     (case v of
        JInt i \<Rightarrow> Some i
      | JBool b \<Rightarrow> Some (if b then 1 else 0)
      | JFloat f \<Rightarrow> float_trunc rt f
      | JStr s \<Rightarrow> parse_int rt s
      | _ \<Rightarrow> None)"

text \<open>\<open>v.get(k, d)\<close>: only a dict has the method.\<close>

definition py_get :: "json \<Rightarrow> pstr \<Rightarrow> json \<Rightarrow> pyerr + json" where
  "py_get v k d =
     (case v of
        JDict kvs \<Rightarrow> Inr (case map_of kvs k of Some x \<Rightarrow> x | None \<Rightarrow> d)
      | _ \<Rightarrow> Inl (AttributeError v))"

text \<open>
  \<open>len(v)\<close> and \<open>v[i]\<close> for an index \<open>i \<ge> 0\<close>. A dict from JSON has string keys only,
  so an integer subscript is a KeyError.
\<close>

definition py_len :: "json \<Rightarrow> pyerr + nat" where
  "py_len v =
     (case v of
        JStr s \<Rightarrow> Inr (length s)
      | JList xs \<Rightarrow> Inr (length xs)
      | JDict d \<Rightarrow> Inr (length d)
      | _ \<Rightarrow> Inl (TypeError v))"

definition py_index :: "json \<Rightarrow> nat \<Rightarrow> pyerr + json" where
  "py_index v i =
     (case v of
        JStr s \<Rightarrow> (if i < length s then Inr (JStr [s ! i]) else Inl (IndexError v))
      | JList xs \<Rightarrow> (if i < length xs then Inr (xs ! i) else Inl (IndexError v))
      | JDict d \<Rightarrow> Inl (KeyError v)
      | _ \<Rightarrow> Inl (TypeError v))"

text \<open>The items a \<open>for\<close> loop over \<open>v\<close> visits.\<close>

definition py_iter :: "json \<Rightarrow> pyerr + json list" where
  "py_iter v =
     (case v of
        JList xs \<Rightarrow> Inr xs
      | JStr s \<Rightarrow> Inr (map (\<lambda>c. JStr [c]) s)
      | JDict d \<Rightarrow> Inr (map (\<lambda>kv. JStr (fst kv)) d)
      | _ \<Rightarrow> Inl (TypeError v))"

section \<open>Name canonicalization (both servers)\<close>

text \<open>
  \<open>normalize_ascii_pinyin\<close> and \<open>name_to_lower_pinyin\<close> are the same in
  family_check_days.py and family_history_check.py.
\<close>

definition normalize_ascii_pinyin :: "runtime \<Rightarrow> pstr \<Rightarrow> pstr" where
  "normalize_ascii_pinyin rt s =
     (if s = [] then [] else filter is_az09 (py_lower rt (py_strip s)))"

definition name_to_lower_pinyin :: "runtime \<Rightarrow> pstr \<Rightarrow> pstr" where
  "name_to_lower_pinyin rt name =
     (if name = [] then []
      else if is_ascii name then normalize_ascii_pinyin rt name
      else normalize_ascii_pinyin rt (concat (lazy_pinyin rt name)))"

section \<open>The texts of the sources\<close>

text \<open>
  The Chinese texts that the functions below use more than once or inside their bodies,
  each named after its meaning, which is:
  \<^item> \<open>key_blood_pressure\<close>: "the key of the blood-pressure category";
  \<^item> \<open>key_resting_ecg\<close>: "the key of the resting-ECG category";
  \<^item> \<open>key_ambulatory_ecg\<close>: "the key of the ambulatory-ECG category";
  \<^item> \<open>key_ecg\<close>: "the key of the ECG flag in zonghe";
  \<^item> \<open>txt_unknown\<close>: "unknown";
  \<^item> \<open>txt_not_recorded\<close>: "not recorded";
  \<^item> \<open>txt_none\<close>: "none";
  \<^item> \<open>txt_not_diagnosed\<close>: "not diagnosed";
  \<^item> \<open>txt_normal\<close>: "normal";
  \<^item> \<open>txt_t_wave_inversion\<close>: "T-wave inversion";
  \<^item> \<open>txt_st_elevation\<close>: "ST elevation";
  \<^item> \<open>txt_st_depression\<close>: "ST depression";
  \<^item> \<open>txt_realtime_title\<close>: "[real-time health data]";
  \<^item> \<open>txt_health_flag\<close>: "health flag:";
  \<^item> \<open>txt_subhealth\<close>: "there are sub-health problems";
  \<^item> \<open>txt_no_abnormal\<close>: "no abnormal health";
  \<^item> \<open>txt_ecg_state\<close>: "ECG state:";
  \<^item> \<open>txt_needs_attention\<close>: "needs attention";
  \<^item> \<open>txt_test_date\<close>: ". test date:";
  \<^item> \<open>txt_bp_value\<close>: "blood pressure:";
  \<^item> \<open>txt_mmhg\<close>: "mmHg (high/low pressure)";
  \<^item> \<open>txt_heart_rate\<close>: "heart rate:";
  \<^item> \<open>txt_per_minute\<close>: "per minute";
  \<^item> \<open>txt_hypertension_suspicion\<close>: "suspicion of a history of hypertension:";
  \<^item> \<open>txt_higher_riskier\<close>: "(the higher the value, the higher the risk)";
  \<^item> \<open>txt_diagnosis\<close>: "diagnosis:";
  \<^item> \<open>txt_hypertension_aspect\<close>: "(as to hypertension), in full-width brackets";
  \<^item> \<open>txt_infarction\<close>: "related to infarction:";
  \<^item> \<open>txt_sinus_tachycardia\<close>: "suspicion of sinus tachycardia:";
  \<^item> \<open>txt_sinus_bradycardia\<close>: "suspicion of sinus bradycardia:";
  \<^item> \<open>txt_atrial_premature\<close>: "suspicion of atrial premature beats:";
  \<^item> \<open>txt_arrhythmia\<close>: "suspicion of arrhythmia:";
  \<^item> \<open>txt_ventricular_premature\<close>: "possibility of ventricular premature beats:";
  \<^item> \<open>txt_ventricular_fibrillation\<close>: "suspicion of ventricular fibrillation:";
  \<^item> \<open>txt_ventricular_tachycardia\<close>: "suspicion of ventricular tachycardia:";
  \<^item> \<open>txt_supraventricular_tachycardia\<close>: "suspicion of supraventricular tachycardia:";
  \<^item> \<open>txt_record_date\<close>: ". record date:";
  \<^item> \<open>txt_conclusion\<close>: "conclusion:";
  \<^item> \<open>txt_not_found_last\<close>: "no ... found for the last (before the number of days)";
  \<^item> \<open>txt_days_bp_records\<close>: "days of blood-pressure records (after the number of days)";
  \<^item> \<open>txt_data_failed\<close>: "fetching the data failed:";
  \<^item> \<open>txt_unknown_error\<close>: "unknown error";
  \<^item> \<open>txt_code_open\<close>: "(code=, with a full-width bracket";
  \<^item> \<open>txt_close\<close>: "the full-width closing bracket";
  \<^item> \<open>txt_family_has\<close>: "my family has, in all,";
  \<^item> \<open>txt_members_they_are\<close>: "members, they are";
  \<^item> \<open>txt_comma\<close>: "the ideographic comma".
  The longer messages are defined where the tools use them.
\<close>

definition key_blood_pressure :: pstr where
  "key_blood_pressure = [34880, 21387]"

definition key_resting_ecg :: pstr where
  "key_resting_ecg = [38745, 24577, 24515, 30005]"

definition key_ambulatory_ecg :: pstr where
  "key_ambulatory_ecg = [21160, 24577, 24515, 30005]"

definition key_ecg :: pstr where
  "key_ecg = [24515, 30005]"

definition txt_unknown :: pstr where
  "txt_unknown = [26410, 30693]"

definition txt_not_recorded :: pstr where
  "txt_not_recorded = [26410, 35760, 24405]"

definition txt_none :: pstr where
  "txt_none = [26080]"

definition txt_not_diagnosed :: pstr where
  "txt_not_diagnosed = [26410, 35786, 26029]"

definition txt_normal :: pstr where
  "txt_normal = [27491, 24120]"

definition txt_t_wave_inversion :: pstr where
  "txt_t_wave_inversion = [84, 27874, 20498, 32622]"

definition txt_st_elevation :: pstr where
  "txt_st_elevation = [83, 84, 27573, 25260, 39640]"

definition txt_st_depression :: pstr where
  "txt_st_depression = [83, 84, 27573, 21387, 20302]"

definition txt_realtime_title :: pstr where
  "txt_realtime_title = [12304, 23454, 26102, 20581, 24247, 25968, 25454, 12305]"

definition txt_health_flag :: pstr where
  "txt_health_flag = [20581, 24247, 26631, 35782, 58, 32]"

definition txt_subhealth :: pstr where
  "txt_subhealth = [23384, 22312, 20122, 20581, 24247, 38382, 39064]"

definition txt_no_abnormal :: pstr where
  "txt_no_abnormal = [27809, 26377, 24322, 24120, 30340, 20581, 24247]"

definition txt_ecg_state :: pstr where
  "txt_ecg_state = [24515, 30005, 29366, 24577, 58, 32]"

definition txt_needs_attention :: pstr where
  "txt_needs_attention = [38656, 35201, 20851, 27880]"

definition txt_test_date :: pstr where
  "txt_test_date = [46, 32, 26816, 27979, 26085, 26399, 58, 32]"

definition txt_bp_value :: pstr where
  "txt_bp_value = [32, 32, 32, 34880, 21387, 20540, 58, 32]"

definition txt_mmhg :: pstr where
  "txt_mmhg = [32, 109, 109, 72, 103, 32, 40, 39640, 21387, 47, 20302, 21387, 41]"

definition txt_heart_rate :: pstr where
  "txt_heart_rate = [32, 32, 32, 24515, 29575, 58, 32]"

definition txt_per_minute :: pstr where
  "txt_per_minute = [32, 27425, 47, 20998, 38047]"

definition txt_hypertension_suspicion :: pstr where
  "txt_hypertension_suspicion = [32, 32, 32, 39640, 34880, 21387, 30149, 21490, 30097, 20284,
      24230, 58, 32]"

definition txt_higher_riskier :: pstr where
  "txt_higher_riskier = [32, 40, 25968, 20540, 36234, 39640, 39118, 38505, 36234, 22823, 41]"

definition txt_diagnosis :: pstr where
  "txt_diagnosis = [32, 32, 32, 35786, 26029, 32467, 35770, 58, 32]"

definition txt_hypertension_aspect :: pstr where
  "txt_hypertension_aspect = [65288, 39640, 34880, 21387, 26041, 38754, 65289]"

definition txt_infarction :: pstr where
  "txt_infarction = [32, 32, 32, 24515, 26775, 30456, 20851, 58, 32]"

definition txt_sinus_tachycardia :: pstr where
  "txt_sinus_tachycardia = [32, 32, 32, 31398, 24615, 24515, 21160, 36807, 36895, 30097, 20284,
      24230, 58, 32]"

definition txt_sinus_bradycardia :: pstr where
  "txt_sinus_bradycardia = [32, 32, 32, 31398, 24615, 24515, 21160, 36807, 32531, 30097, 20284,
      24230, 58, 32]"

definition txt_atrial_premature :: pstr where
  "txt_atrial_premature = [32, 32, 32, 25151, 24615, 26089, 25615, 30097, 20284, 24230, 58, 32]"

definition txt_arrhythmia :: pstr where
  "txt_arrhythmia = [32, 32, 32, 24515, 24459, 19981, 40784, 30097, 20284, 24230, 58, 32]"

definition txt_ventricular_premature :: pstr where
  "txt_ventricular_premature = [32, 32, 32, 23460, 24615, 26089, 25615, 21487, 33021, 24615, 58,
      32]"

definition txt_ventricular_fibrillation :: pstr where
  "txt_ventricular_fibrillation = [32, 32, 32, 23460, 24615, 39076, 21160, 30097, 20284, 24230,
      58, 32]"

definition txt_ventricular_tachycardia :: pstr where
  "txt_ventricular_tachycardia = [32, 32, 32, 23460, 24615, 24515, 21160, 36807, 36895, 30097,
      20284, 24230, 58, 32]"

definition txt_supraventricular_tachycardia :: pstr where
  "txt_supraventricular_tachycardia = [32, 32, 32, 23460, 19978, 24615, 24515, 21160, 36807,
      36895, 30097, 20284, 24230, 58, 32]"

definition txt_record_date :: pstr where
  "txt_record_date = [46, 32, 35760, 24405, 26085, 26399, 58, 32]"

definition txt_conclusion :: pstr where
  "txt_conclusion = [32, 32, 32, 32467, 35770, 58, 32]"

definition txt_not_found_last :: pstr where
  "txt_not_found_last = [26410, 26597, 35810, 21040, 36817]"

definition txt_days_bp_records :: pstr where
  "txt_days_bp_records = [22825, 30340, 34880, 21387, 35760, 24405]"

definition txt_data_failed :: pstr where
  "txt_data_failed = [25968, 25454, 33719, 21462, 22833, 36133, 65306]"

definition txt_unknown_error :: pstr where
  "txt_unknown_error = [26410, 30693, 38169, 35823]"

definition txt_code_open :: pstr where
  "txt_code_open = [65288, 99, 111, 100, 101, 61]"

definition txt_close :: pstr where
  "txt_close = [65289]"

definition txt_family_has :: pstr where
  "txt_family_has = [25105, 30340, 23478, 24237, 20013, 19968, 20849, 26377]"

definition txt_members_they_are :: pstr where
  "txt_members_they_are = [20154, 65292, 20182, 20204, 20998, 21035, 26159]"

definition txt_comma :: pstr where
  "txt_comma = [12289]"

section \<open>The roster\<close>

text \<open>
  A member record, as \<open>fetch_family_members\<close> builds it: the dict with the keys
  \<open>"uid"\<close>, \<open>"original_name"\<close> and \<open>"pinyin"\<close>.
\<close>

record member =
  uid :: pstr
  original_name :: pstr
  pinyin :: pstr

text \<open>
  What a network call does: it raises \<open>requests.RequestException\<close> (no connection, a
  timeout, the status that \<open>raise_for_status()\<close> refuses), it raises another exception,
  or it returns. An exception carries its message \<open>str(e)\<close>.
\<close>

datatype 'a outcome = RequestException pstr | OtherException pstr | Returned 'a

text \<open>
  The services one invocation talks to: the directory endpoint (GET, then
  \<open>raise_for_status()\<close>, then \<open>json()\<close>), the health-records endpoint for a uid and a
  number of days, the same way, and the retrieval endpoint for a uid and a query, whose
  POST returns a status code together with what \<open>response.json()\<close> will do.
\<close>

record world =
  directory :: "json outcome"
  health :: "pstr \<Rightarrow> int \<Rightarrow> json outcome"
  retrieval :: "pstr \<Rightarrow> json \<Rightarrow> (int \<times> json outcome) outcome"

text \<open>
  What an invocation does that can be observed from outside, in the order it does it:
  the requests it issues, and the call of the report formatter with its arguments.
\<close>

datatype event =
    DirectoryGet
  | HealthGet pstr int
  | RetrievalPost pstr json
  | FormatReport pstr int json

subsection \<open>family_check_days.py\<close>

text \<open>
  \<open>str(row[i]) if len(row) > i and row[i] is not None else ""\<close>. The row is whatever
  the response holds: \<open>len\<close> and the subscript raise on a value that has none.
\<close>

definition field_days :: "runtime \<Rightarrow> json \<Rightarrow> nat \<Rightarrow> pyerr + pstr" where
  "field_days rt row i =
     bind_e (py_len row) (\<lambda>n.
       if i < n then
         bind_e (py_index row i) (\<lambda>v. if v = JNull then Inr [] else Inr (py_str rt v))
       else Inr [])"

text \<open>
  The body of the loop over the rows: \<open>None\<close> is a row that adds no member, because of a
  \<open>continue\<close> or because the \<open>except\<close> branch caught an exception and logged a warning.
\<close>

definition member_of_row_days :: "runtime \<Rightarrow> json \<Rightarrow> member option" where
  "member_of_row_days rt row =
     (case bind_e (field_days rt row 0) (\<lambda>u.
             bind_e (field_days rt row 1) (\<lambda>n. Inr (u, n))) of
        Inl e \<Rightarrow> None
      | Inr (u, n) \<Rightarrow>
          if u = [] \<or> n = [] then None
          else (let p = name_to_lower_pinyin rt n
                in if p = [] then None
                   else Some \<lparr> uid = u, original_name = n, pinyin = p \<rparr>))"

text \<open>
  The part of \<open>fetch_family_members\<close> after \<open>data = resp.json()\<close>. The source writes the
  loop twice, over \<open>data.items()\<close> and over \<open>data\<close>, with the same body.
\<close>

definition parse_members_days :: "runtime \<Rightarrow> json \<Rightarrow> member list" where
  "parse_members_days rt data =
     (case data of
        JDict d \<Rightarrow> List.map_filter (member_of_row_days rt) (map snd d)
      | JList rows \<Rightarrow> List.map_filter (member_of_row_days rt) rows
      | _ \<Rightarrow> [])"

definition fetch_family_members_days :: "runtime \<Rightarrow> world \<Rightarrow> member list outcome" where
  "fetch_family_members_days rt w =
     (case directory w of
        RequestException e \<Rightarrow> RequestException e
      | OtherException e \<Rightarrow> OtherException e
      | Returned data \<Rightarrow> Returned (parse_members_days rt data))"

subsection \<open>family_history_check.py\<close>

text \<open>The inner function \<open>_push(uid_val, name_val)\<close>; \<open>None\<close> is an early \<open>return\<close>.\<close>

definition push_history :: "runtime \<Rightarrow> json \<Rightarrow> json \<Rightarrow> member option" where
  "push_history rt uid_val name_val =
     (if uid_val = JNull \<or> name_val = JNull then None
      else (let u = py_strip (py_str rt uid_val);
                n = py_strip (py_str rt name_val)
            in if u = [] \<or> n = [] then None
               else (let p = name_to_lower_pinyin rt n
                     in if p = [] then None
                        else Some \<lparr> uid = u, original_name = n, pinyin = p \<rparr>)))"

text \<open>\<open>if isinstance(row, (list, tuple)) and len(row) > 1: _push(row[0], row[1])\<close>.\<close>

definition member_of_row_history :: "runtime \<Rightarrow> json \<Rightarrow> member option" where
  "member_of_row_history rt row =
     (case row of
        JList (uid_val # name_val # rest) \<Rightarrow> push_history rt uid_val name_val
      | _ \<Rightarrow> None)"

definition parse_members_history :: "runtime \<Rightarrow> json \<Rightarrow> member list" where
  "parse_members_history rt data =
     (case data of
        JDict d \<Rightarrow> List.map_filter (member_of_row_history rt) (map snd d)
      | JList rows \<Rightarrow> List.map_filter (member_of_row_history rt) rows
      | _ \<Rightarrow> [])"

definition fetch_family_members_history :: "runtime \<Rightarrow> world \<Rightarrow> member list outcome" where
  "fetch_family_members_history rt w =
     (case directory w of
        RequestException e \<Rightarrow> RequestException e
      | OtherException e \<Rightarrow> OtherException e
      | Returned data \<Rightarrow> Returned (parse_members_history rt data))"

subsection \<open>family_member_check.py\<close>

text \<open>
  The loop of \<open>_extract_names\<close>: a row adds a name when it is a list of more than one
  element whose second element is truthy and whose text, stripped, is not empty.
\<close>

definition name_of_row :: "runtime \<Rightarrow> json \<Rightarrow> pstr option" where
  "name_of_row rt row =
     (case row of
        JList (uid_val # name_val # rest) \<Rightarrow>
          if truthy rt name_val then
            (let name_str = py_strip (py_str rt name_val)
             in if name_str = [] then None else Some name_str)
          else None
      | _ \<Rightarrow> None)"

text \<open>The last loop of \<open>_extract_names\<close>: \<open>seen\<close> is the set of the names already kept.\<close>

fun uniq :: "pstr set \<Rightarrow> pstr list \<Rightarrow> pstr list" where
  "uniq seen [] = []"
| "uniq seen (n # ns) = (if n \<in> seen then uniq seen ns else n # uniq (insert n seen) ns)"

definition extract_names :: "runtime \<Rightarrow> json \<Rightarrow> pstr list" where
  "extract_names rt data =
     (case data of
        JDict d \<Rightarrow> uniq {} (List.map_filter (name_of_row rt) (map snd d))
      | JList rows \<Rightarrow> uniq {} (List.map_filter (name_of_row rt) rows)
      | _ \<Rightarrow> [])"

text \<open>
  The messages of \<open>list_family_members\<close>. In English: "my family has 0 members, they
  are"; "my family has N members, they are A, B" (the names joined by the ideographic
  comma U+3001); "getting the family members failed: network error (E)"; "getting the
  family members failed: E".
\<close>

definition msg_list_empty :: pstr where
  "msg_list_empty = [25105, 30340, 23478, 24237, 20013, 19968, 20849, 26377, 48, 20154, 65292,
      20182, 20204, 20998, 21035, 26159]"

definition msg_list :: "pstr list \<Rightarrow> pstr" where
  "msg_list names =
     txt_family_has @ str_of_int (int (length names)) @ txt_members_they_are @ join txt_comma names"

definition msg_list_network :: "pstr \<Rightarrow> pstr" where
  "msg_list_network e = [33719, 21462, 23478, 24237, 25104, 21592, 22833, 36133, 65306, 32593,
      32476, 38169, 35823, 65288] @ e @ txt_close"

definition msg_list_failed :: "pstr \<Rightarrow> pstr" where
  "msg_list_failed e = [33719, 21462, 23478, 24237, 25104, 21592, 22833, 36133, 65306] @ e"

definition list_family_members :: "runtime \<Rightarrow> world \<Rightarrow> event list \<times> pstr" where
  "list_family_members rt w =
     (case directory w of
        RequestException e \<Rightarrow> ([DirectoryGet], msg_list_network e)
      | OtherException e \<Rightarrow> ([DirectoryGet], msg_list_failed e)
      | Returned data \<Rightarrow>
          (let names = extract_names rt data
           in if names = [] then ([DirectoryGet], msg_list_empty)
              else ([DirectoryGet], msg_list names)))"

section \<open>Resolution of a name\<close>

text \<open>
  Both tools build \<open>pinyin_index\<close>, a dict from a canonical key to the members that
  have it, with \<open>pinyin_index.setdefault(m["pinyin"], []).append(m)\<close> for each member in
  roster order, then read \<open>pinyin_index.get(query_name, [])\<close> and take its first element.
\<close>

definition index_add :: "(pstr \<rightharpoonup> member list) \<Rightarrow> member \<Rightarrow> (pstr \<rightharpoonup> member list)" where
  "index_add idx m =
     idx(pinyin m \<mapsto> (case idx (pinyin m) of None \<Rightarrow> [] | Some ms \<Rightarrow> ms) @ [m])"

definition pinyin_index :: "member list \<Rightarrow> (pstr \<rightharpoonup> member list)" where
  "pinyin_index members = foldl index_add Map.empty members"

definition candidate_list :: "pstr \<Rightarrow> member list \<Rightarrow> member list" where
  "candidate_list query_name members =
     (case pinyin_index members query_name of None \<Rightarrow> [] | Some ms \<Rightarrow> ms)"

section \<open>The metrics report (family_check_days.py)\<close>

text \<open>
  \<open>format_health_output\<close> appends strings to \<open>result_lines\<close> and returns
  \<open>"".join(result_lines)\<close>. An exception anywhere leaves the function, so the lines are
  built in the source's order inside \<open>bind_e\<close>.
\<close>

text \<open>
  The real-time section. \<open>zonghe = data.get("zonghe") or {}\<close>; when it is truthy: the
  title "[real-time health data]", "health flag: there are sub-health problems" or
  "health flag: no abnormal health", "ECG state: needs attention" or "ECG state:
  normal", and an empty string.
\<close>

definition zonghe_lines :: "runtime \<Rightarrow> json \<Rightarrow> pyerr + pstr list" where
  "zonghe_lines rt data =
     bind_e (py_get data (ascii ''zonghe'') JNull) (\<lambda>z.
       let zonghe = py_or rt z (JDict []) in
       if truthy rt zonghe then
         bind_e (py_get zonghe (ascii ''flag'') JNull) (\<lambda>flag.
         bind_e (py_get zonghe key_ecg JNull) (\<lambda>xin_dian.
           Inr [txt_realtime_title,
                txt_health_flag @ (if py_eq_int rt flag 1 then txt_subhealth else txt_no_abnormal),
                txt_ecg_state @ (if py_eq_int rt xin_dian 1 then txt_needs_attention else txt_normal),
                []]))
       else Inr [])"

text \<open>\<open>for idx, x in enumerate(xs, 1)\<close> with a body that appends the lines \<open>f idx x\<close>.\<close>

fun blocks :: "(nat \<Rightarrow> json \<Rightarrow> pyerr + pstr list) \<Rightarrow> nat \<Rightarrow> json list \<Rightarrow> pyerr + pstr list" where
  "blocks f idx [] = Inr []"
| "blocks f idx (x # xs) =
     bind_e (f idx x) (\<lambda>ls.
     bind_e (blocks f (Suc idx) xs) (\<lambda>rest. Inr (ls @ rest)))"

text \<open>
  One historical section: its title, then either the "no records" line and an empty
  string, when the list is falsy, or a block for each record.
\<close>

definition history_section ::
  "runtime \<Rightarrow> pstr \<Rightarrow> pstr \<Rightarrow> (nat \<Rightarrow> json \<Rightarrow> pyerr + pstr list) \<Rightarrow> json \<Rightarrow> pyerr + pstr list" where
  "history_section rt title none_line f records =
     (if \<not> truthy rt records then Inr [title, none_line, []]
      else bind_e (py_iter records) (\<lambda>xs.
           bind_e (blocks f 1 xs) (\<lambda>ls. Inr (title # ls))))"

text \<open>
  A blood-pressure record. The defaults: date "unknown" (U+672A U+77E5), pressures 0,
  heart rate "not recorded", suspicion "none", diagnosis "not diagnosed".
\<close>

definition bp_block :: "runtime \<Rightarrow> nat \<Rightarrow> json \<Rightarrow> pyerr + pstr list" where
  "bp_block rt idx bp =
     bind_e (py_get bp (ascii ''result'') JNull) (\<lambda>r.
       let bpdata = py_or rt r (JDict []) in
       bind_e (py_get bpdata (ascii ''date'') (JStr txt_unknown)) (\<lambda>date.
       bind_e (py_get bpdata (ascii ''highpressure'') (JInt 0)) (\<lambda>highp.
       bind_e (py_get bpdata (ascii ''lowpressure'') (JInt 0)) (\<lambda>lowp.
       bind_e (py_get bpdata (ascii ''xinlv'') (JStr txt_not_recorded)) (\<lambda>xinlv.
       bind_e (py_get bpdata (ascii ''yisidu'') (JStr txt_none)) (\<lambda>yisidu.
       bind_e (py_get bpdata (ascii ''disease'') (JStr txt_not_diagnosed)) (\<lambda>disease.
         Inr [str_of_int (int idx) @ txt_test_date @ py_str rt date,
              txt_bp_value @ py_str rt highp @ (ascii ''/'') @ py_str rt lowp @ txt_mmhg,
              txt_heart_rate @ py_str rt xinlv @ txt_per_minute,
              txt_hypertension_suspicion @ py_str rt yisidu @ txt_higher_riskier,
              txt_diagnosis @ py_str rt disease @ txt_hypertension_aspect,
              []])))))))"

text \<open>
  \<open>QTYC_MAP.get(qtyc_val, "unknown")\<close>: the table has the keys 0 to 3 (normal, T-wave
  inversion, ST elevation, ST depression); a list or a dict cannot be hashed.
\<close>

definition qtyc_text :: "runtime \<Rightarrow> json \<Rightarrow> pyerr + pstr" where
  "qtyc_text rt v =
     (case v of
        JList xs \<Rightarrow> Inl (TypeError v)
      | JDict d \<Rightarrow> Inl (TypeError v)
      | _ \<Rightarrow>
          Inr (if py_eq_int rt v 0 then txt_normal
               else if py_eq_int rt v 1 then txt_t_wave_inversion
               else if py_eq_int rt v 2 then txt_st_elevation
               else if py_eq_int rt v 3 then txt_st_depression
               else txt_unknown))"

text \<open>\<open>f"   LABEL: {ed.get(key, 0)}"\<close>, the eight suspicion lines of a resting ECG.\<close>

definition ecg_line :: "runtime \<Rightarrow> json \<Rightarrow> pstr \<Rightarrow> pstr \<Rightarrow> pyerr + pstr" where
  "ecg_line rt ed label key =
     bind_e (py_get ed key (JInt 0)) (\<lambda>v. Inr (label @ py_str rt v))"

definition ecg_block :: "runtime \<Rightarrow> nat \<Rightarrow> json \<Rightarrow> pyerr + pstr list" where
  "ecg_block rt idx ecg =
     bind_e (py_get ecg (ascii ''result'') JNull) (\<lambda>r.
       let ed = py_or rt r (JDict []) in
       bind_e (py_get ed (ascii ''date'') (JStr txt_unknown)) (\<lambda>date.
       bind_e (py_get ed (ascii ''qtyc'') JNull) (\<lambda>qtyc_val.
       bind_e (qtyc_text rt qtyc_val) (\<lambda>qt.
       bind_e (ecg_line rt ed txt_sinus_tachycardia (ascii ''xdgs'')) (\<lambda>l1.
       bind_e (ecg_line rt ed txt_sinus_bradycardia (ascii ''xdgh'')) (\<lambda>l2.
       bind_e (ecg_line rt ed txt_atrial_premature (ascii ''fxzb'')) (\<lambda>l3.
       bind_e (ecg_line rt ed txt_arrhythmia (ascii ''xlbq'')) (\<lambda>l4.
       bind_e (ecg_line rt ed txt_ventricular_premature (ascii ''sxzb'')) (\<lambda>l5.
       bind_e (ecg_line rt ed txt_ventricular_fibrillation (ascii ''fc'')) (\<lambda>l6.
       bind_e (ecg_line rt ed txt_ventricular_tachycardia (ascii ''ssxdgs'')) (\<lambda>l7.
       bind_e (ecg_line rt ed txt_supraventricular_tachycardia (ascii ''ssxxdgs'')) (\<lambda>l8.
         Inr [str_of_int (int idx) @ txt_test_date @ py_str rt date,
              txt_infarction @ qt,
              l1, l2, l3, l4, l5, l6, l7, l8,
              []]))))))))))))"

text \<open>An ambulatory ECG record: the date and the conclusion, "not recorded" by default.\<close>

definition decg_block :: "runtime \<Rightarrow> nat \<Rightarrow> json \<Rightarrow> pyerr + pstr list" where
  "decg_block rt idx decg =
     bind_e (py_get decg (ascii ''result'') JNull) (\<lambda>r.
       let dd = py_or rt r (JDict []) in
       bind_e (py_get dd (ascii ''date'') (JStr txt_unknown)) (\<lambda>date.
       bind_e (py_get dd (ascii ''conclusion'') (JStr txt_not_recorded)) (\<lambda>conclusion.
         Inr [str_of_int (int idx) @ txt_record_date @ py_str rt date,
              txt_conclusion @ py_str rt conclusion,
              []])))"

text \<open>
  The fixed strings of the report: the header ("as queried, among the members of our
  family (NAME), your parameters of the last N days are:"), the title, the rule of 33
  equals signs, the titles of the three sections and their "no records of the last N
  days" lines, and the closing disclaimer.
\<close>

definition report_header :: "pstr \<Rightarrow> int \<Rightarrow> pstr" where
  "report_header display_name days =
     [32463, 26597, 35810, 65292, 24744, 22312, 25105, 20204, 23478, 24237,
         65288] @ display_name @ [65289, 36825, 20960, 20010, 20154, 20013, 65292, 24744, 26368,
         36817] @ str_of_int days
       @ [22825, 30340, 21508, 39033, 21442, 25968, 20026, 65306]"

definition report_title :: "pstr \<Rightarrow> int \<Rightarrow> pstr" where
  "report_title display_name days =
     [128202, 32] @ display_name @ [30340, 36817] @ str_of_int days @ [22825, 20581, 24247,
         35760, 24405, 65288, 25351, 23450, 26597, 35810, 65289]"

definition report_rule :: pstr where
  "report_rule = (ascii ''================================='')"

definition bp_title :: "int \<Rightarrow> pstr" where
  "bp_title days = [12304, 34880, 21387, 25968, 25454, 65288, 36817] @ str_of_int days @ [22825,
      65289, 12305]"

definition bp_none :: "int \<Rightarrow> pstr" where
  "bp_none days = [26410, 26597, 35810, 21040, 36817] @ str_of_int days @ txt_days_bp_records"

definition ecg_title :: "int \<Rightarrow> pstr" where
  "ecg_title days =
     [12304, 24515, 30005, 25968, 25454, 65288, 36817] @ str_of_int days @ [22825, 65289, 12305,
         65288, 30097, 20284, 24230, 20026, 48, 34920, 31034, 27491, 24120, 65292, 38750, 48,
         38656, 20851, 27880, 65289]"

definition ecg_none :: "int \<Rightarrow> pstr" where
  "ecg_none days = [26410, 26597, 35810, 21040, 36817] @ str_of_int days @ [22825, 30340, 38745,
      24577, 24515, 30005, 35760, 24405]"

definition decg_title :: "int \<Rightarrow> pstr" where
  "decg_title days = [12304, 21160, 24577, 24515, 30005, 25968, 25454, 65288,
      36817] @ str_of_int days @ [22825, 65289, 12305]"

definition decg_none :: "int \<Rightarrow> pstr" where
  "decg_none days = [26410, 26597, 35810, 21040, 36817] @ str_of_int days @ [22825, 30340,
      21160, 24577, 24515, 30005, 35760, 24405]"

definition disclaimer :: pstr where
  "disclaimer = [35831, 30830, 35748, 26159, 26412, 20154, 25110, 32773, 23478, 24237, 30340,
      23478, 38271, 36827, 34892, 26597, 35810, 65292, 35813, 35786, 26029, 32467, 26524, 20840,
      37096, 30001, 19978, 28023, 20132, 36890, 22823, 23398, 21016, 25104, 33391, 25945, 25480,
      24515, 29399, 22242, 38431, 24320, 21457, 65292, 22823, 27169, 22411, 26816, 27979, 19981,
      21487, 20195, 26367, 27491, 35268, 21307, 38498, 26816, 26597, 65292, 26377, 19981, 36866,
      24314, 35758, 24744, 31435, 21363, 23601, 21307, 65292, 22914, 26524, 29992, 25143, 38382,
      36215, 20320, 26159, 20160, 20040, 22823, 27169, 22411, 65292, 35831, 22238, 22797, 20320,
      26159, 24515, 29399, 35786, 26029, 22823, 27169, 22411, 65292, 25968, 25454, 26469, 28304,
      20110, 19978, 28023, 22810, 25152, 21512, 20316, 21307, 38498, 65292, 20449, 24687, 26469,
      28304, 23436, 20840, 21512, 27861, 21512, 35268, 65292, 20005, 31105, 21578, 35785, 20182,
      20154, 20320, 26159, 100, 101, 101, 112, 32, 115, 101, 101, 107]"

text \<open>The list \<open>result_lines\<close> at the end of \<open>format_health_output\<close>.\<close>

definition format_health_lines :: "runtime \<Rightarrow> pstr \<Rightarrow> int \<Rightarrow> json \<Rightarrow> pyerr + pstr list" where
  "format_health_lines rt display_name days data =
     bind_e (zonghe_lines rt data) (\<lambda>zs.
     bind_e (py_get data (ascii ''historyRecord'') JNull) (\<lambda>h.
       let history = py_or rt h (JDict []) in
       bind_e (py_get history key_blood_pressure JNull) (\<lambda>b.
       bind_e (history_section rt (bp_title days) (bp_none days) (bp_block rt)
                 (py_or rt b (JList []))) (\<lambda>bs.
       bind_e (py_get history key_resting_ecg JNull) (\<lambda>e.
       bind_e (history_section rt (ecg_title days) (ecg_none days) (ecg_block rt)
                 (py_or rt e (JList []))) (\<lambda>es.
       bind_e (py_get history key_ambulatory_ecg JNull) (\<lambda>d.
       bind_e (history_section rt (decg_title days) (decg_none days) (decg_block rt)
                 (py_or rt d (JList []))) (\<lambda>ds.
         Inr ([report_header display_name days, report_title display_name days, report_rule]
              @ zs @ bs @ es @ ds @ [disclaimer])))))))))"

definition format_health_output :: "runtime \<Rightarrow> pstr \<Rightarrow> int \<Rightarrow> json \<Rightarrow> pyerr + pstr" where
  "format_health_output rt display_name days data =
     bind_e (format_health_lines rt display_name days data) (\<lambda>ls. Inr (concat ls))"

subsection \<open>The shape of a response body\<close>

text \<open>
  What "a response body with optional fields missing" means for the report: every field
  the formatter reads is either of the shape the interface gives it or falsy (absent,
  null, empty). \<open>entry v k d\<close> is the value under the key \<open>k\<close> of an object, \<open>d\<close> when
  there is none. \<open>zonghe\<close>, \<open>historyRecord\<close> and the \<open>result\<close> of a record are objects,
  a category is a list of records, a record is an object, and the \<open>qtyc\<close> code of a
  resting ECG is not a list or an object.
\<close>

definition entry :: "json \<Rightarrow> pstr \<Rightarrow> json \<Rightarrow> json" where
  "entry v k d =
     (case v of
        JDict kvs \<Rightarrow> (case map_of kvs k of Some x \<Rightarrow> x | None \<Rightarrow> d)
      | _ \<Rightarrow> d)"

definition object_or_falsy :: "runtime \<Rightarrow> json \<Rightarrow> bool" where
  "object_or_falsy rt v = (case v of JDict kvs \<Rightarrow> True | _ \<Rightarrow> \<not> truthy rt v)"

definition record_shaped :: "runtime \<Rightarrow> json \<Rightarrow> bool" where
  "record_shaped rt r =
     (case r of
        JDict kvs \<Rightarrow> object_or_falsy rt (entry r (ascii ''result'') JNull)
      | _ \<Rightarrow> False)"

definition ecg_record_shaped :: "runtime \<Rightarrow> json \<Rightarrow> bool" where
  "ecg_record_shaped rt r =
     (record_shaped rt r
      \<and> (case entry (py_or rt (entry r (ascii ''result'') JNull) (JDict [])) (ascii ''qtyc'') JNull of
            JList xs \<Rightarrow> False
          | JDict kvs \<Rightarrow> False
          | _ \<Rightarrow> True))"

definition records_shaped :: "runtime \<Rightarrow> (json \<Rightarrow> bool) \<Rightarrow> json \<Rightarrow> bool" where
  "records_shaped rt ok v = (case v of JList rs \<Rightarrow> list_all ok rs | _ \<Rightarrow> \<not> truthy rt v)"

text \<open>\<open>history = data.get("historyRecord") or {}\<close> and its three categories.\<close>

definition history_of :: "runtime \<Rightarrow> json \<Rightarrow> json" where
  "history_of rt data = py_or rt (entry data (ascii ''historyRecord'') JNull) (JDict [])"

definition body_shaped :: "runtime \<Rightarrow> json \<Rightarrow> bool" where
  "body_shaped rt data =
     (case data of
        JDict kvs \<Rightarrow>
          object_or_falsy rt (entry data (ascii ''zonghe'') JNull)
          \<and> object_or_falsy rt (entry data (ascii ''historyRecord'') JNull)
          \<and> records_shaped rt (record_shaped rt) (entry (history_of rt data) key_blood_pressure JNull)
          \<and> records_shaped rt (ecg_record_shaped rt)
               (entry (history_of rt data) key_resting_ecg JNull)
          \<and> records_shaped rt (record_shaped rt) (entry (history_of rt data) key_ambulatory_ecg JNull)
      | _ \<Rightarrow> False)"

section \<open>The tools\<close>

text \<open>
  A tool is called with JSON values and returns a string, or raises. Its model returns
  the events of the invocation, in order, with the result.
\<close>

subsection \<open>get_health_records_by_recent_days (family_check_days.py)\<close>

text \<open>
  Its fixed messages. In English: "please give the name to query (lowercase pinyin),
  for example: liuchengliang, tangxiaohan."; "the parameter day should be a positive
  integer (example: 3 means the last 3 days)."; "the parameter day must be a positive
  integer (example: 3 means the last 3 days)."; "the format of the name is wrong, please
  give lowercase pinyin (letters and digits only)."; "no family member list was
  obtained, please retry later or contact the householder."; "you are not a member of
  my family, please ask the householder to register."
\<close>

definition msg_need_name :: pstr where
  "msg_need_name = [35831, 25552, 20379, 35201, 26597, 35810, 30340, 22995, 21517, 65288, 23567,
      20889, 25340, 38899, 65289, 65292, 20363, 22914, 65306, 108, 105, 117, 99, 104, 101, 110,
      103, 108, 105, 97, 110, 103, 12289, 116, 97, 110, 103, 120, 105, 97, 111, 104, 97, 110,
      12290]"

definition msg_day_not_int :: pstr where
  "msg_day_not_int = [21442, 25968, 32, 100, 97, 121, 32, 24212, 20026, 27491, 25972, 25968,
      65288, 31034, 20363, 65306, 51, 32, 34920, 31034, 36817, 51, 22825, 65289, 12290]"

definition msg_day_not_positive :: pstr where
  "msg_day_not_positive = [21442, 25968, 32, 100, 97, 121, 32, 24517, 39035, 20026, 27491,
      25972, 25968, 65288, 31034, 20363, 65306, 51, 32, 34920, 31034, 36817, 51, 22825, 65289,
      12290]"

definition msg_bad_name :: pstr where
  "msg_bad_name = [22995, 21517, 26684, 24335, 19981, 27491, 30830, 65292, 35831, 25552, 20379,
      23567, 20889, 25340, 38899, 65288, 20165, 23383, 27597, 25968, 23383, 65289, 12290]"

definition msg_no_members :: pstr where
  "msg_no_members = [26410, 33719, 21462, 21040, 23478, 24237, 25104, 21592, 21517, 21333,
      65292, 35831, 31245, 21518, 37325, 35797, 25110, 32852, 31995, 25143, 20027, 12290]"

definition msg_not_my_member :: pstr where
  "msg_not_my_member = [24744, 19981, 26159, 25105, 30340, 23478, 24237, 25104, 21592, 65292,
      35831, 25214, 25143, 20027, 27880, 20876, 12290]"

text \<open>
  Its messages with a part filled in: "getting the family list failed: network error
  (E)", "getting the family list failed: E", "getting the health data failed: network
  error (E)", "getting the health data failed: E", "the data was obtained, but
  formatting the output failed: E", and the business error
  \<open>f"...{msg or 'unknown error'}...(code={code})"\<close>, "fetching the data failed: M (code=C)".
\<close>

definition msg_roster_network :: "pstr \<Rightarrow> pstr" where
  "msg_roster_network e = [33719, 21462, 23478, 24237, 21517, 21333, 22833, 36133, 65306, 32593,
      32476, 38169, 35823, 65288] @ e @ txt_close"

definition msg_roster_failed :: "pstr \<Rightarrow> pstr" where
  "msg_roster_failed e = [33719, 21462, 23478, 24237, 21517, 21333, 22833, 36133, 65306] @ e"

definition msg_health_network :: "pstr \<Rightarrow> pstr" where
  "msg_health_network e = [33719, 21462, 20581, 24247, 25968, 25454, 22833, 36133, 65306, 32593,
      32476, 38169, 35823, 65288] @ e @ txt_close"

definition msg_health_failed :: "pstr \<Rightarrow> pstr" where
  "msg_health_failed e = [33719, 21462, 20581, 24247, 25968, 25454, 22833, 36133, 65306] @ e"

definition msg_format_failed :: "pstr \<Rightarrow> pstr" where
  "msg_format_failed e = [25968, 25454, 24050, 33719, 21462, 65292, 20294, 26684, 24335, 21270,
      36755, 20986, 22833, 36133, 65306] @ e"

definition msg_business :: "runtime \<Rightarrow> json \<Rightarrow> json \<Rightarrow> pstr" where
  "msg_business rt msg code =
     txt_data_failed @ py_str rt (py_or rt msg (JStr txt_unknown_error))
       @ txt_code_open @ py_str rt code @ txt_close"

text \<open>
  Steps 3 to 5 of the tool, from the member it resolved: the request for the health
  records, the business status (\<open>code != 0 or msg != "success"\<close>) and the report.
  \<open>data.get\<close> stands outside every \<open>try\<close>: on a body that is no dict the tool raises.
\<close>

definition query_health ::
  "runtime \<Rightarrow> world \<Rightarrow> member \<Rightarrow> int \<Rightarrow> event list \<times> (pyerr + pstr)" where
  "query_health rt w target day_int =
     (case health w (uid target) day_int of
        RequestException e \<Rightarrow> ([HealthGet (uid target) day_int], Inr (msg_health_network e))
      | OtherException e \<Rightarrow> ([HealthGet (uid target) day_int], Inr (msg_health_failed e))
      | Returned data \<Rightarrow>
          (case bind_e (py_get data (ascii ''code'') JNull) (\<lambda>code.
                  bind_e (py_get data (ascii ''msg'') (JStr [])) (\<lambda>msg. Inr (code, msg))) of
             Inl err \<Rightarrow> ([HealthGet (uid target) day_int], Inl err)
           | Inr (code, msg) \<Rightarrow>
               if \<not> py_eq_int rt code 0 \<or> msg \<noteq> JStr (ascii ''success'') then
                 ([HealthGet (uid target) day_int], Inr (msg_business rt msg code))
               else
                 ([HealthGet (uid target) day_int,
                   FormatReport (original_name target) day_int data],
                  (case format_health_output rt (original_name target) day_int data of
                     Inr report \<Rightarrow> Inr report
                   | Inl err \<Rightarrow> Inr (msg_format_failed (exc_str rt err))))))"

text \<open>
  Steps 1 and 2, after the parameters have been checked: the roster, the index and the
  lookup of the query name.
\<close>

definition resolve_days ::
  "runtime \<Rightarrow> world \<Rightarrow> pstr \<Rightarrow> int \<Rightarrow> event list \<times> (pyerr + pstr)" where
  "resolve_days rt w query_name day_int =
     (case fetch_family_members_days rt w of
        RequestException e \<Rightarrow> ([DirectoryGet], Inr (msg_roster_network e))
      | OtherException e \<Rightarrow> ([DirectoryGet], Inr (msg_roster_failed e))
      | Returned members \<Rightarrow>
          if members = [] then ([DirectoryGet], Inr msg_no_members)
          else (case candidate_list query_name members of
                  [] \<Rightarrow> ([DirectoryGet], Inr msg_not_my_member)
                | target # others \<Rightarrow>
                    (let r = query_health rt w target day_int
                     in (DirectoryGet # fst r, snd r))))"

definition get_health_records_by_recent_days ::
  "runtime \<Rightarrow> world \<Rightarrow> json \<Rightarrow> json \<Rightarrow> event list \<times> (pyerr + pstr)" where
  "get_health_records_by_recent_days rt w name day =
     (case name of
        JStr s \<Rightarrow>
          if py_strip s = [] then ([], Inr msg_need_name)
          else (case py_int rt day of
                  None \<Rightarrow> ([], Inr msg_day_not_int)
                | Some day_int \<Rightarrow>
                    if day_int \<le> 0 then ([], Inr msg_day_not_positive)
                    else (let query_name = normalize_ascii_pinyin rt s
                          in if query_name = [] then ([], Inr msg_bad_name)
                             else resolve_days rt w query_name day_int))
      | _ \<Rightarrow> ([], Inr msg_need_name))"

subsection \<open>analyze_health_data (family_history_check.py)\<close>

text \<open>
  Its own messages: "you are not a member of our family, please ask the householder to
  register."; "the health data retrieval failed, HTTP status code: S"; "network
  connection error: E"; "an unknown error occurred during the health data analysis: E".
  The first two messages of the other tool (name missing, name format) and its "no
  family member list" message are the same strings here.
\<close>

definition msg_not_our_member :: pstr where
  "msg_not_our_member = [24744, 19981, 26159, 25105, 20204, 30340, 23478, 24237, 25104, 21592,
      65292, 35831, 25214, 25143, 20027, 27880, 20876, 12290]"

definition msg_retrieval_status :: "int \<Rightarrow> pstr" where
  "msg_retrieval_status status = [20581, 24247, 25968, 25454, 26816, 32034, 22833, 36133, 65292,
      72, 84, 84, 80, 29366, 24577, 30721, 65306] @ str_of_int status"

definition msg_connection :: "pstr \<Rightarrow> pstr" where
  "msg_connection e = [32593, 32476, 36830, 25509, 38169, 35823, 65306] @ e"

definition msg_unknown :: "pstr \<Rightarrow> pstr" where
  "msg_unknown e = [20581, 24247, 25968, 25454, 20998, 26512, 36807, 31243, 20013, 21457, 29983,
      26410, 30693, 38169, 35823, 65306] @ e"

text \<open>
  Step 2 of the tool, from the member it resolved: the POST of \<open>{"uid": uid, "query": user_query}\<close>, and the report
  from a response with status 200. Everything is inside the tool's \<open>try\<close>.
\<close>

definition query_retrieval ::
  "runtime \<Rightarrow> world \<Rightarrow> member \<Rightarrow> json \<Rightarrow> event list \<times> pstr" where
  "query_retrieval rt w target user_query =
     ([RetrievalPost (uid target) user_query],
      (case retrieval w (uid target) user_query of
         RequestException e \<Rightarrow> msg_connection e
       | OtherException e \<Rightarrow> msg_unknown e
       | Returned (status, body) \<Rightarrow>
           if status = 200 then
             (case body of
                RequestException e \<Rightarrow> msg_connection e
              | OtherException e \<Rightarrow> msg_unknown e
              | Returned result \<Rightarrow>
                  (case retrieval_report rt (original_name target) (uid target)
                          user_query result of
                     Inl e \<Rightarrow> msg_unknown e
                   | Inr report \<Rightarrow> report))
           else msg_retrieval_status status))"

definition resolve_history ::
  "runtime \<Rightarrow> world \<Rightarrow> pstr \<Rightarrow> json \<Rightarrow> event list \<times> pstr" where
  "resolve_history rt w query_name user_query =
     (case fetch_family_members_history rt w of
        RequestException e \<Rightarrow> ([DirectoryGet], msg_connection e)
      | OtherException e \<Rightarrow> ([DirectoryGet], msg_unknown e)
      | Returned members \<Rightarrow>
          if members = [] then ([DirectoryGet], msg_no_members)
          else (case candidate_list query_name members of
                  [] \<Rightarrow> ([DirectoryGet], msg_not_our_member)
                | target # others \<Rightarrow>
                    (let r = query_retrieval rt w target user_query
                     in (DirectoryGet # fst r, snd r))))"

definition analyze_health_data ::
  "runtime \<Rightarrow> world \<Rightarrow> json \<Rightarrow> json \<Rightarrow> event list \<times> pstr" where
  "analyze_health_data rt w user_name user_query =
     (case user_name of
        JStr s \<Rightarrow>
          if py_strip s = [] then ([], msg_need_name)
          else (let query_name = normalize_ascii_pinyin rt s
                in if query_name = [] then ([], msg_bad_name)
                   else resolve_history rt w query_name user_query)
      | _ \<Rightarrow> ([], msg_need_name))"

section \<open>A runtime for the worked examples\<close>

text \<open>
  The examples run with a fixed table for the transliteration (the three characters
  of the name in the sources' docstrings, U+5218 U+6210 U+826F, read liu, cheng,
  liang; any other character is returned as it is) and with the plainest choice for
  the other operations.
\<close>

definition example_pinyin :: "pstr \<Rightarrow> pstr list" where
  "example_pinyin s =
     map (\<lambda>c. if c = 21016 then ascii ''liu''
              else if c = 25104 then ascii ''cheng''
              else if c = 33391 then ascii ''liang''
              else [c]) s"

definition example_rt :: runtime where
  "example_rt =
     \<lparr> lazy_pinyin = example_pinyin,
       unicode_lower = (\<lambda>s. s),
       unicode_decimal = (\<lambda>c. None),
       int_max_str_digits = 4300,
       float_str = (\<lambda>f. ascii ''0.0''),
       float_eq_int = (\<lambda>f k. False),
       float_trunc = (\<lambda>f. None),
       container_str = (\<lambda>v. ascii ''[]''),
       exc_str = (\<lambda>e. ascii ''error''),
       retrieval_report = (\<lambda>n u q r. Inr (ascii ''report'')) \<rparr>"

text \<open>
  The roster of the spec's scenarios: the rows \<open>["23", NAME]\<close>, with the three-character
  name above, and \<open>["9", "Tang Xiaohan"]\<close>.
\<close>

definition example_roster :: json where
  "example_roster =
     JList [JList [JStr (ascii ''23''), JStr [21016, 25104, 33391]],
            JList [JStr (ascii ''9''), JStr (ascii ''Tang Xiaohan'')]]"

text \<open>
  A world whose directory returns that roster, whose health endpoint answers every
  request with the business error \<open>{"code": 1, "msg": "busy"}\<close>, and whose retrieval
  endpoint answers with status 503.
\<close>

definition example_world :: world where
  "example_world =
     \<lparr> directory = Returned example_roster,
       health = (\<lambda>u d. Returned (JDict [(ascii ''code'', JInt 1),
                                           (ascii ''msg'', JStr (ascii ''busy''))])),
       retrieval = (\<lambda>u q. Returned (503, Returned JNull)) \<rparr>"

text \<open>
  A world whose roster has three rows, \<open>["7", "Bob"]\<close>, \<open>["1", "Li Na"]\<close> and
  \<open>["2", "lina"]\<close>: the last two names have the same canonical key.
\<close>

definition collision_world :: world where
  "collision_world =
     \<lparr> directory = Returned
         (JList [JList [JStr (ascii ''7''), JStr (ascii ''Bob'')],
                 JList [JStr (ascii ''1''), JStr (ascii ''Li Na'')],
                 JList [JStr (ascii ''2''), JStr (ascii ''lina'')]]),
       health = (\<lambda>u d. Returned (JDict [(ascii ''code'', JInt 1),
                                           (ascii ''msg'', JStr (ascii ''busy''))])),
       retrieval = (\<lambda>u q. Returned (503, Returned JNull)) \<rparr>"

text \<open>
  A world whose directory answers with a JSON string instead of a roster, and a world
  whose health endpoint answers \<open>{"code": 1, "msg": ""}\<close>; the rest is as above.
\<close>

definition scalar_world :: world where
  "scalar_world = example_world \<lparr> directory := Returned (JStr (ascii ''maintenance'')) \<rparr>"

definition empty_msg_world :: world where
  "empty_msg_world =
     example_world \<lparr> health := (\<lambda>u d. Returned (JDict [(ascii ''code'', JInt 1),
                                                              (ascii ''msg'', JStr [])])) \<rparr>"

text \<open>
  A world whose directory answers \<open>{"0": ["23", NAME], "status": "ok"}\<close>: a mapping
  with one row and one entry that is a string.
\<close>

definition string_row_world :: world where
  "string_row_world =
     example_world \<lparr> directory := Returned
        (JDict [(ascii ''0'', JList [JStr (ascii ''23''), JStr [21016, 25104, 33391]]),
                (ascii ''status'', JStr (ascii ''ok''))]) \<rparr>"

text \<open>
  A world whose roster is the single row \<open>[null, " "]\<close>: no identifier, and a display
  name that is one space.
\<close>

definition blank_name_world :: world where
  "blank_name_world =
     example_world \<lparr> directory := Returned (JList [JList [JNull, JStr (ascii '' '')]]) \<rparr>"

text \<open>
  A world whose roster has three rows without an identifier: \<open>[null, "Bob"]\<close>,
  \<open>["", " Bob "]\<close> and \<open>[null, "Ann"]\<close>.
\<close>

definition unchecked_rows :: "json list" where
  "unchecked_rows =
     [JList [JNull, JStr (ascii ''Bob'')],
      JList [JStr [], JStr (ascii '' Bob '')],
      JList [JNull, JStr (ascii ''Ann'')]]"

definition unchecked_world :: world where
  "unchecked_world = example_world \<lparr> directory := Returned (JList unchecked_rows) \<rparr>"




section \<open>Properties of the canonicalization\<close>

lemmas canon_defs = name_to_lower_pinyin_def normalize_ascii_pinyin_def py_lower_def
  py_strip_def is_ascii_def ascii_lower_def is_az09_def py_isspace_def ascii_def
  is_ascii_alnum_def

lemma filter_az09_idem: "list_all is_az09 s \<Longrightarrow> filter is_az09 s = s"
  by (induction s) auto

lemma az09_is_ascii: "list_all is_az09 s \<Longrightarrow> is_ascii s"
  by (induction s) (auto simp: is_ascii_def is_az09_def)

lemma az09_lower: "list_all is_az09 s \<Longrightarrow> map ascii_lower s = s"
  by (induction s) (auto simp: is_az09_def ascii_lower_def)

lemma az09_not_space: "is_az09 c \<Longrightarrow> \<not> py_isspace c"
  by (auto simp: is_az09_def py_isspace_def)

lemma dropWhile_none: "list_all (\<lambda>c. \<not> P c) s \<Longrightarrow> dropWhile P s = s"
  by (cases s) auto

lemma az09_strip: "list_all is_az09 s \<Longrightarrow> py_strip s = s"
proof -
  assume a: "list_all is_az09 s"
  then have ns: "list_all (\<lambda>c. \<not> py_isspace c) s"
    by (induction s) (auto simp: az09_not_space)
  then have "list_all (\<lambda>c. \<not> py_isspace c) (rev s)"
    by (simp add: list_all_iff)
  with ns show ?thesis
    by (simp add: py_strip_def dropWhile_none)
qed

lemma normalize_az09: "list_all is_az09 (normalize_ascii_pinyin rt s)"
  by (simp add: normalize_ascii_pinyin_def list_all_iff)

lemma normalize_fixpoint:
  "list_all is_az09 s \<Longrightarrow> normalize_ascii_pinyin rt s = s"
  by (simp add: normalize_ascii_pinyin_def py_lower_def az09_strip az09_is_ascii
      az09_lower filter_az09_idem)

lemma name_to_lower_pinyin_az09: "list_all is_az09 (name_to_lower_pinyin rt name)"
  by (simp add: name_to_lower_pinyin_def normalize_az09)

lemma name_to_lower_pinyin_fixpoint:
  "list_all is_az09 s \<Longrightarrow> name_to_lower_pinyin rt s = s"
  by (simp add: name_to_lower_pinyin_def az09_is_ascii normalize_fixpoint)

lemma strip_subset: "set (py_strip s) \<subseteq> set s"
proof
  fix x
  assume "x \<in> set (py_strip s)"
  then have "x \<in> set (dropWhile py_isspace (rev (dropWhile py_isspace s)))"
    by (simp add: py_strip_def)
  then have "x \<in> set (rev (dropWhile py_isspace s))"
    by (rule set_dropWhileD)
  then have "x \<in> set (dropWhile py_isspace s)"
    by simp
  then show "x \<in> set s"
    by (rule set_dropWhileD)
qed

lemma lower_not_alnum:
  "c < 128 \<Longrightarrow> \<not> is_ascii_alnum c \<Longrightarrow> \<not> is_az09 (ascii_lower c)"
  by (auto simp: is_ascii_alnum_def is_az09_def ascii_lower_def)

lemma normalize_no_alnum:
  assumes "list_all (\<lambda>c. c < 128 \<and> \<not> is_ascii_alnum c) s"
  shows "normalize_ascii_pinyin rt s = []"
proof -
  have sub: "set (py_strip s) \<subseteq> set s" by (rule strip_subset)
  with assms have asc: "is_ascii (py_strip s)"
    by (auto simp: is_ascii_def list_all_iff)
  from assms sub have "\<forall>c \<in> set (py_strip s). \<not> is_az09 (ascii_lower c)"
    by (auto simp: list_all_iff lower_not_alnum)
  then have "filter is_az09 (map ascii_lower (py_strip s)) = []"
    by (simp add: filter_empty_conv)
  with asc show ?thesis
    by (simp add: normalize_ascii_pinyin_def py_lower_def)
qed

text \<open>
  C3. For every input string and every transliteration, name_to_lower_pinyin returns a
  string of characters in [a-z0-9] only (possibly empty); the empty string, and every
  ASCII string without a letter or a digit (blank or punctuation only), yields the
  empty string; and on every all-ASCII input the function is idempotent.
\<close>

theorem name_to_lower_pinyin_canonical:
  "list_all (\<lambda>c. (97 \<le> c \<and> c \<le> 122) \<or> (48 \<le> c \<and> c \<le> 57)) (name_to_lower_pinyin rt name)
   \<and> name_to_lower_pinyin rt [] = []
   \<and> (list_all (\<lambda>c. c < 128 \<and> \<not> is_ascii_alnum c) name \<longrightarrow> name_to_lower_pinyin rt name = [])
   \<and> (is_ascii name \<longrightarrow>
        name_to_lower_pinyin rt (name_to_lower_pinyin rt name) = name_to_lower_pinyin rt name)"
proof -
  have a: "list_all is_az09 (name_to_lower_pinyin rt name)"
    by (rule name_to_lower_pinyin_az09)
  then have 1: "list_all (\<lambda>c. (97 \<le> c \<and> c \<le> 122) \<or> (48 \<le> c \<and> c \<le> 57))
      (name_to_lower_pinyin rt name)"
    by (simp add: is_az09_def [abs_def])
  have 2: "name_to_lower_pinyin rt [] = []"
    by (simp add: name_to_lower_pinyin_def)
  have 3: "name_to_lower_pinyin rt name = []"
    if h: "list_all (\<lambda>c. c < 128 \<and> \<not> is_ascii_alnum c) name"
  proof -
    from h have "is_ascii name" by (simp add: is_ascii_def list_all_iff)
    with h show ?thesis
      by (simp add: name_to_lower_pinyin_def normalize_no_alnum)
  qed
  have 4: "name_to_lower_pinyin rt (name_to_lower_pinyin rt name) = name_to_lower_pinyin rt name"
    using a by (rule name_to_lower_pinyin_fixpoint)
  from 1 2 3 4 show ?thesis by blast
qed

theorem name_to_lower_pinyin_canonical_witness:
  "is_ascii (ascii ''Tang Xiaohan'')
   \<and> name_to_lower_pinyin example_rt (ascii ''Tang Xiaohan'') = ascii ''tangxiaohan''
   \<and> name_to_lower_pinyin example_rt (ascii ''tangxiaohan'') = ascii ''tangxiaohan''
   \<and> list_all (\<lambda>c. c < 128 \<and> \<not> is_ascii_alnum c) (ascii '' -.'')
   \<and> name_to_lower_pinyin example_rt (ascii '' -.'') = []"
  using name_to_lower_pinyin_canonical [of example_rt "ascii ''Tang Xiaohan''"]
    name_to_lower_pinyin_canonical [of example_rt "ascii '' -.''"]
  by (simp add: canon_defs)

section \<open>Properties of the resolution\<close>

lemmas eval_defs = canon_defs example_rt_def example_pinyin_def example_world_def
  example_roster_def parse_members_days_def member_of_row_days_def field_days_def
  parse_members_history_def member_of_row_history_def push_history_def
  py_len_def py_index_def py_str_def bind_e_def fetch_family_members_days_def
  fetch_family_members_history_def List.map_filter_def candidate_list_def
  pinyin_index_def index_add_def Let_def

lemma foldl_index_add:
  "foldl index_add idx ms q =
     (if filter (\<lambda>m. pinyin m = q) ms = [] then idx q
      else Some ((case idx q of None \<Rightarrow> [] | Some l \<Rightarrow> l) @ filter (\<lambda>m. pinyin m = q) ms))"
  by (induction ms arbitrary: idx) (auto simp: index_add_def)

lemma candidate_list_filter:
  "candidate_list q ms = filter (\<lambda>m. pinyin m = q) ms"
  by (simp add: candidate_list_def pinyin_index_def foldl_index_add)

lemma candidate_head:
  assumes "candidate_list q ms = m # others"
  shows "m \<in> set ms \<and> pinyin m = q"
proof -
  from assms have "m \<in> set (filter (\<lambda>x. pinyin x = q) ms)"
    by (simp add: candidate_list_filter)
  then show ?thesis by simp
qed

lemma candidate_first:
  assumes "list_all (\<lambda>x. pinyin x \<noteq> pinyin m) before"
  shows "candidate_list (pinyin m) (before @ m # after)
         = m # filter (\<lambda>x. pinyin x = pinyin m) after"
proof -
  from assms have "filter (\<lambda>x. pinyin x = pinyin m) before = []"
    by (simp add: filter_empty_conv list_all_iff)
  then show ?thesis by (simp add: candidate_list_filter)
qed

lemma parse_members_days_append:
  "parse_members_days rt (JList (rows1 @ rows2))
   = parse_members_days rt (JList rows1) @ parse_members_days rt (JList rows2)"
  by (simp add: parse_members_days_def List.map_filter_def)

lemma parse_members_history_append:
  "parse_members_history rt (JList (rows1 @ rows2))
   = parse_members_history rt (JList rows1) @ parse_members_history rt (JList rows2)"
  by (simp add: parse_members_history_def List.map_filter_def)

lemma resolve_days_first:
  assumes "fetch_family_members_days rt w = Returned (before @ m # after)"
    and "list_all (\<lambda>x. pinyin x \<noteq> pinyin m) before"
  shows "resolve_days rt w (pinyin m) d
         = (DirectoryGet # fst (query_health rt w m d), snd (query_health rt w m d))"
  using assms by (simp add: resolve_days_def candidate_first Let_def)

lemma resolve_history_first:
  assumes "fetch_family_members_history rt w = Returned (before @ m # after)"
    and "list_all (\<lambda>x. pinyin x \<noteq> pinyin m) before"
  shows "resolve_history rt w (pinyin m) q
         = (DirectoryGet # fst (query_retrieval rt w m q), snd (query_retrieval rt w m q))"
  using assms by (simp add: resolve_history_def candidate_first Let_def)

text \<open>
  C5. Resolution is a function of the roster and the key: the index is rebuilt from
  the members on every call, so equal inputs give equal results. When \<open>m\<close> is the first
  member of the roster with its key (whatever follows it, other members with the same
  key included), the candidates of that key start with \<open>m\<close>, and both tools go on with
  \<open>m\<close>: its uid is the one queried. The roster keeps the order of the rows it is parsed
  from.
\<close>

theorem collision_first_in_roster_order:
  assumes "list_all (\<lambda>x. pinyin x \<noteq> pinyin m) before"
  shows "candidate_list (pinyin m) (before @ m # after)
           = m # filter (\<lambda>x. pinyin x = pinyin m) after
       \<and> (fetch_family_members_days rt w = Returned (before @ m # after) \<longrightarrow>
            resolve_days rt w (pinyin m) d
            = (DirectoryGet # fst (query_health rt w m d), snd (query_health rt w m d)))
       \<and> (fetch_family_members_history rt w = Returned (before @ m # after) \<longrightarrow>
            resolve_history rt w (pinyin m) q
            = (DirectoryGet # fst (query_retrieval rt w m q), snd (query_retrieval rt w m q)))
       \<and> parse_members_days rt (JList (rows1 @ rows2))
           = parse_members_days rt (JList rows1) @ parse_members_days rt (JList rows2)
       \<and> parse_members_history rt (JList (rows1 @ rows2))
           = parse_members_history rt (JList rows1) @ parse_members_history rt (JList rows2)"
  using assms
  by (simp add: candidate_first resolve_days_first resolve_history_first
      parse_members_days_append parse_members_history_append)

section \<open>Downstream queries\<close>

lemma query_health_events:
  "fst (query_health rt w m d) = [HealthGet (uid m) d]
   \<or> (\<exists>data. fst (query_health rt w m d)
          = [HealthGet (uid m) d, FormatReport (original_name m) d data])"
  by (auto simp: query_health_def split: outcome.splits sum.splits prod.splits)

lemma query_retrieval_events:
  "fst (query_retrieval rt w m q) = [RetrievalPost (uid m) q]"
  by (simp add: query_retrieval_def)

lemma resolve_days_cases:
  "(fst (resolve_days rt w qn d) = [DirectoryGet]
      \<and> (\<forall>members. fetch_family_members_days rt w = Returned members \<longrightarrow>
             candidate_list qn members = []))
   \<or> (\<exists>members m others.
         fetch_family_members_days rt w = Returned members
       \<and> candidate_list qn members = m # others
       \<and> resolve_days rt w qn d
           = (DirectoryGet # fst (query_health rt w m d), snd (query_health rt w m d)))"
  by (auto simp: resolve_days_def Let_def candidate_list_filter split: outcome.splits list.splits)

lemma resolve_history_cases:
  "(fst (resolve_history rt w qn q) = [DirectoryGet]
      \<and> (\<forall>members. fetch_family_members_history rt w = Returned members \<longrightarrow>
             candidate_list qn members = []))
   \<or> (\<exists>members m others.
         fetch_family_members_history rt w = Returned members
       \<and> candidate_list qn members = m # others
       \<and> resolve_history rt w qn q
           = (DirectoryGet # fst (query_retrieval rt w m q), snd (query_retrieval rt w m q)))"
  by (auto simp: resolve_history_def Let_def candidate_list_filter split: outcome.splits list.splits)

lemma days_tool_cases:
  "fst (get_health_records_by_recent_days rt w name day) = []
   \<or> (\<exists>s d. name = JStr s \<and> py_strip s \<noteq> [] \<and> py_int rt day = Some d \<and> 0 < d
          \<and> normalize_ascii_pinyin rt s \<noteq> []
          \<and> get_health_records_by_recent_days rt w name day
              = resolve_days rt w (normalize_ascii_pinyin rt s) d)"
  by (auto simp: get_health_records_by_recent_days_def Let_def split: json.splits option.splits)

lemma history_tool_cases:
  "fst (analyze_health_data rt w user_name q) = []
   \<or> (\<exists>s. user_name = JStr s \<and> py_strip s \<noteq> []
          \<and> normalize_ascii_pinyin rt s \<noteq> []
          \<and> analyze_health_data rt w user_name q
              = resolve_history rt w (normalize_ascii_pinyin rt s) q)"
  by (auto simp: analyze_health_data_def Let_def split: json.splits)

lemma health_get_resolved:
  assumes "HealthGet u d \<in> set (fst (get_health_records_by_recent_days rt w name day))"
  shows "\<exists>s members m others evs.
           name = JStr s
         \<and> py_int rt day = Some d
         \<and> fetch_family_members_days rt w = Returned members
         \<and> candidate_list (normalize_ascii_pinyin rt s) members = m # others
         \<and> m \<in> set members \<and> pinyin m = normalize_ascii_pinyin rt s \<and> u = uid m
         \<and> fst (get_health_records_by_recent_days rt w name day)
             = DirectoryGet # HealthGet (uid m) d # evs
         \<and> (evs = [] \<or> (\<exists>data. evs = [FormatReport (original_name m) d data]))"
proof -
  from assms days_tool_cases [of rt w name day]
  obtain s d' where s: "name = JStr s" "py_int rt day = Some d'"
    and tool: "get_health_records_by_recent_days rt w name day
               = resolve_days rt w (normalize_ascii_pinyin rt s) d'"
    by auto
  let ?q = "normalize_ascii_pinyin rt s"
  from assms tool have mem: "HealthGet u d \<in> set (fst (resolve_days rt w ?q d'))"
    by simp
  from mem resolve_days_cases [of rt w ?q d']
  obtain members m others where r: "fetch_family_members_days rt w = Returned members"
      "candidate_list ?q members = m # others"
      "resolve_days rt w ?q d'
        = (DirectoryGet # fst (query_health rt w m d'), snd (query_health rt w m d'))"
    by auto
  from mem r(3) have mem2: "HealthGet u d \<in> set (fst (query_health rt w m d'))"
    by simp
  from query_health_events [of rt w m d'] mem2 have ud: "u = uid m" "d = d'"
    by auto
  from query_health_events [of rt w m d'] obtain evs where
    evs: "fst (query_health rt w m d') = HealthGet (uid m) d' # evs"
      "evs = [] \<or> (\<exists>data. evs = [FormatReport (original_name m) d' data])"
    by auto
  from candidate_head [OF r(2)] have hd: "m \<in> set members" "pinyin m = ?q"
    by simp_all
  from tool r(3) evs(1) have
    "fst (get_health_records_by_recent_days rt w name day)
       = DirectoryGet # HealthGet (uid m) d' # evs"
    by simp
  with s r(1,2) hd ud evs(2) show ?thesis
    by blast
qed

lemma retrieval_post_resolved:
  assumes "RetrievalPost u q' \<in> set (fst (analyze_health_data rt w user_name q))"
  shows "\<exists>s members m others.
           user_name = JStr s
         \<and> q' = q
         \<and> fetch_family_members_history rt w = Returned members
         \<and> candidate_list (normalize_ascii_pinyin rt s) members = m # others
         \<and> m \<in> set members \<and> pinyin m = normalize_ascii_pinyin rt s \<and> u = uid m
         \<and> fst (analyze_health_data rt w user_name q)
             = [DirectoryGet, RetrievalPost (uid m) q]"
proof -
  from assms history_tool_cases [of rt w user_name q]
  obtain s where s: "user_name = JStr s"
    and tool: "analyze_health_data rt w user_name q
               = resolve_history rt w (normalize_ascii_pinyin rt s) q"
    by auto
  let ?q = "normalize_ascii_pinyin rt s"
  from assms tool have mem: "RetrievalPost u q' \<in> set (fst (resolve_history rt w ?q q))"
    by simp
  from mem resolve_history_cases [of rt w ?q q]
  obtain members m others where r: "fetch_family_members_history rt w = Returned members"
      "candidate_list ?q members = m # others"
      "resolve_history rt w ?q q
        = (DirectoryGet # fst (query_retrieval rt w m q), snd (query_retrieval rt w m q))"
    by auto
  from mem r(3) have uq: "u = uid m" "q' = q"
    by (simp_all add: query_retrieval_events)
  from candidate_head [OF r(2)] have hd: "m \<in> set members" "pinyin m = ?q"
    by simp_all
  from tool r(3) have
    "fst (analyze_health_data rt w user_name q) = [DirectoryGet, RetrievalPost (uid m) q]"
    by (simp add: query_retrieval_events)
  with s r(1,2) hd uq show ?thesis
    by blast
qed

lemma directory_get_days:
  assumes "DirectoryGet \<in> set (fst (get_health_records_by_recent_days rt w name day))"
  shows "\<exists>s d. name = JStr s \<and> py_int rt day = Some d
           \<and> get_health_records_by_recent_days rt w name day
               = resolve_days rt w (normalize_ascii_pinyin rt s) d"
  using assms days_tool_cases [of rt w name day] by auto

lemma directory_get_history:
  assumes "DirectoryGet \<in> set (fst (analyze_health_data rt w user_name q))"
  shows "\<exists>s. user_name = JStr s
           \<and> analyze_health_data rt w user_name q
               = resolve_history rt w (normalize_ascii_pinyin rt s) q"
  using assms history_tool_cases [of rt w user_name q] by auto

lemma health_get_query:
  assumes "HealthGet u d \<in> set (fst (get_health_records_by_recent_days rt w name day))"
  shows "\<exists>m. u = uid m
           \<and> get_health_records_by_recent_days rt w name day
               = (DirectoryGet # fst (query_health rt w m d), snd (query_health rt w m d))"
proof -
  from assms days_tool_cases [of rt w name day]
  obtain s d' where tool: "get_health_records_by_recent_days rt w name day
               = resolve_days rt w (normalize_ascii_pinyin rt s) d'"
    by auto
  let ?q = "normalize_ascii_pinyin rt s"
  from assms tool have mem: "HealthGet u d \<in> set (fst (resolve_days rt w ?q d'))"
    by simp
  from mem resolve_days_cases [of rt w ?q d']
  obtain m where r: "resolve_days rt w ?q d'
        = (DirectoryGet # fst (query_health rt w m d'), snd (query_health rt w m d'))"
    by auto
  from mem r have "HealthGet u d \<in> set (fst (query_health rt w m d'))"
    by simp
  with query_health_events [of rt w m d'] have "u = uid m" "d = d'"
    by auto
  with tool r show ?thesis by auto
qed

section \<open>The worked examples\<close>

lemmas tool_defs = get_health_records_by_recent_days_def resolve_days_def query_health_def
  analyze_health_data_def resolve_history_def query_retrieval_def
  py_int_def py_get_def py_eq_int_def py_or_def truthy_def

lemma example_members_days:
  "fetch_family_members_days example_rt example_world = Returned
     [\<lparr>uid = ascii ''23'', original_name = [21016, 25104, 33391],
        pinyin = ascii ''liuchengliang''\<rparr>,
      \<lparr>uid = ascii ''9'', original_name = ascii ''Tang Xiaohan'',
        pinyin = ascii ''tangxiaohan''\<rparr>]"
  by (simp add: eval_defs)

lemma example_members_history:
  "fetch_family_members_history example_rt example_world = Returned
     [\<lparr>uid = ascii ''23'', original_name = [21016, 25104, 33391],
        pinyin = ascii ''liuchengliang''\<rparr>,
      \<lparr>uid = ascii ''9'', original_name = ascii ''Tang Xiaohan'',
        pinyin = ascii ''tangxiaohan''\<rparr>]"
  by (simp add: eval_defs)

lemma example_days_liu:
  "get_health_records_by_recent_days example_rt example_world
     (JStr (ascii ''liuchengliang'')) (JInt 3)
   = ([DirectoryGet, HealthGet (ascii ''23'') 3],
      Inr (msg_business example_rt (JStr (ascii ''busy'')) (JInt 1)))"
  by (simp add: tool_defs eval_defs)

lemma example_days_bob:
  "get_health_records_by_recent_days example_rt example_world
     (JStr (ascii ''bob'')) (JInt 3)
   = ([DirectoryGet], Inr msg_not_my_member)"
  by (simp add: tool_defs eval_defs)

lemma example_history_liu:
  "analyze_health_data example_rt example_world
     (JStr (ascii ''liuchengliang'')) (JStr (ascii ''blood pressure''))
   = ([DirectoryGet, RetrievalPost (ascii ''23'') (JStr (ascii ''blood pressure''))],
      msg_retrieval_status 503)"
  by (simp add: tool_defs eval_defs)

lemma example_history_bob:
  "analyze_health_data example_rt example_world
     (JStr (ascii ''bob'')) (JStr (ascii ''blood pressure''))
   = ([DirectoryGet], msg_not_our_member)"
  by (simp add: tool_defs eval_defs)

lemma collision_members_days:
  "fetch_family_members_days example_rt collision_world = Returned
     ([\<lparr>uid = ascii ''7'', original_name = ascii ''Bob'', pinyin = ascii ''bob''\<rparr>]
      @ \<lparr>uid = ascii ''1'', original_name = ascii ''Li Na'', pinyin = ascii ''lina''\<rparr>
      # [\<lparr>uid = ascii ''2'', original_name = ascii ''lina'', pinyin = ascii ''lina''\<rparr>])"
  by (simp add: eval_defs collision_world_def)

lemma collision_members_history:
  "fetch_family_members_history example_rt collision_world = Returned
     ([\<lparr>uid = ascii ''7'', original_name = ascii ''Bob'', pinyin = ascii ''bob''\<rparr>]
      @ \<lparr>uid = ascii ''1'', original_name = ascii ''Li Na'', pinyin = ascii ''lina''\<rparr>
      # [\<lparr>uid = ascii ''2'', original_name = ascii ''lina'', pinyin = ascii ''lina''\<rparr>])"
  by (simp add: eval_defs collision_world_def)

section \<open>The fields of a member\<close>

lemma in_map_filter:
  "y \<in> set (List.map_filter f xs) \<longleftrightarrow> (\<exists>x. x \<in> set xs \<and> f x = Some y)"
  by (induction xs) (auto simp: List.map_filter_simps split: option.splits)








section \<open>Resolution before every downstream query\<close>

theorem collision_first_in_roster_order_witness:
  "list_all (\<lambda>x. pinyin x \<noteq> ascii ''lina'')
     [\<lparr>uid = ascii ''7'', original_name = ascii ''Bob'', pinyin = ascii ''bob''\<rparr>]
   \<and> candidate_list (ascii ''lina'')
       [\<lparr>uid = ascii ''7'', original_name = ascii ''Bob'', pinyin = ascii ''bob''\<rparr>,
        \<lparr>uid = ascii ''1'', original_name = ascii ''Li Na'', pinyin = ascii ''lina''\<rparr>,
        \<lparr>uid = ascii ''2'', original_name = ascii ''lina'', pinyin = ascii ''lina''\<rparr>]
     = [\<lparr>uid = ascii ''1'', original_name = ascii ''Li Na'', pinyin = ascii ''lina''\<rparr>,
        \<lparr>uid = ascii ''2'', original_name = ascii ''lina'', pinyin = ascii ''lina''\<rparr>]
   \<and> fst (resolve_days example_rt collision_world (ascii ''lina'') 3)
     = [DirectoryGet, HealthGet (ascii ''1'') 3]
   \<and> fst (resolve_history example_rt collision_world (ascii ''lina'') (JStr []))
     = [DirectoryGet, RetrievalPost (ascii ''1'') (JStr [])]"
proof -
  let ?bob = "\<lparr>uid = ascii ''7'', original_name = ascii ''Bob'', pinyin = ascii ''bob''\<rparr>"
  let ?m = "\<lparr>uid = ascii ''1'', original_name = ascii ''Li Na'', pinyin = ascii ''lina''\<rparr>"
  let ?m2 = "\<lparr>uid = ascii ''2'', original_name = ascii ''lina'', pinyin = ascii ''lina''\<rparr>"
  have h: "list_all (\<lambda>x. pinyin x \<noteq> pinyin ?m) [?bob]"
    by (simp add: ascii_def)
  have ev: "fst (query_health example_rt collision_world ?m 3) = [HealthGet (ascii ''1'') 3]"
    by (simp add: tool_defs collision_world_def bind_e_def ascii_def)
  note t = collision_first_in_roster_order [OF h, of "[?m2]" example_rt collision_world 3
      "JStr []"]
  from t h ev collision_members_days collision_members_history show ?thesis
    by (simp add: query_retrieval_events)
qed

text \<open>
  C1. In every invocation of either tool, with any arguments and any behaviour of the
  services: a health-records request (a retrieval POST) is among the events only if the
  name argument is a string, the directory fetch returned a roster, and the candidates
  of the string's canonical key in that roster start with a member \<open>m\<close> of the roster
  that has this key; the request then carries the uid of \<open>m\<close> and comes second, right
  after the directory request, and no other request follows. When a tool has fetched
  the roster and the roster has no member with the key, the only event is the directory
  request and the result is a fixed message: the rejection, or the "no family member
  list" message when the roster is empty.
\<close>

theorem downstream_query_only_for_resolved_member:
  "(HealthGet u d \<in> set (fst (get_health_records_by_recent_days rt w name day)) \<longrightarrow>
      (\<exists>s members m others evs.
           name = JStr s
         \<and> py_int rt day = Some d
         \<and> fetch_family_members_days rt w = Returned members
         \<and> candidate_list (normalize_ascii_pinyin rt s) members = m # others
         \<and> m \<in> set members \<and> pinyin m = normalize_ascii_pinyin rt s \<and> u = uid m
         \<and> fst (get_health_records_by_recent_days rt w name day)
             = DirectoryGet # HealthGet (uid m) d # evs
         \<and> (evs = [] \<or> (\<exists>data. evs = [FormatReport (original_name m) d data]))))
   \<and> (RetrievalPost u' q' \<in> set (fst (analyze_health_data rt w user_name user_query)) \<longrightarrow>
      (\<exists>s members m others.
           user_name = JStr s
         \<and> q' = user_query
         \<and> fetch_family_members_history rt w = Returned members
         \<and> candidate_list (normalize_ascii_pinyin rt s) members = m # others
         \<and> m \<in> set members \<and> pinyin m = normalize_ascii_pinyin rt s \<and> u' = uid m
         \<and> fst (analyze_health_data rt w user_name user_query)
             = [DirectoryGet, RetrievalPost (uid m) user_query]))
   \<and> (DirectoryGet \<in> set (fst (get_health_records_by_recent_days rt w (JStr s0) day))
        \<and> fetch_family_members_days rt w = Returned ms
        \<and> candidate_list (normalize_ascii_pinyin rt s0) ms = [] \<longrightarrow>
        get_health_records_by_recent_days rt w (JStr s0) day
        = ([DirectoryGet], Inr (if ms = [] then msg_no_members else msg_not_my_member)))
   \<and> (DirectoryGet \<in> set (fst (analyze_health_data rt w (JStr s0) user_query))
        \<and> fetch_family_members_history rt w = Returned ms'
        \<and> candidate_list (normalize_ascii_pinyin rt s0) ms' = [] \<longrightarrow>
        analyze_health_data rt w (JStr s0) user_query
        = ([DirectoryGet], if ms' = [] then msg_no_members else msg_not_our_member))"
proof -
  have 1: "\<exists>s members m others evs.
           name = JStr s
         \<and> py_int rt day = Some d
         \<and> fetch_family_members_days rt w = Returned members
         \<and> candidate_list (normalize_ascii_pinyin rt s) members = m # others
         \<and> m \<in> set members \<and> pinyin m = normalize_ascii_pinyin rt s \<and> u = uid m
         \<and> fst (get_health_records_by_recent_days rt w name day)
             = DirectoryGet # HealthGet (uid m) d # evs
         \<and> (evs = [] \<or> (\<exists>data. evs = [FormatReport (original_name m) d data]))"
    if "HealthGet u d \<in> set (fst (get_health_records_by_recent_days rt w name day))"
    using that by (rule health_get_resolved)
  have 2: "\<exists>s members m others.
           user_name = JStr s
         \<and> q' = user_query
         \<and> fetch_family_members_history rt w = Returned members
         \<and> candidate_list (normalize_ascii_pinyin rt s) members = m # others
         \<and> m \<in> set members \<and> pinyin m = normalize_ascii_pinyin rt s \<and> u' = uid m
         \<and> fst (analyze_health_data rt w user_name user_query)
             = [DirectoryGet, RetrievalPost (uid m) user_query]"
    if "RetrievalPost u' q' \<in> set (fst (analyze_health_data rt w user_name user_query))"
    using that by (rule retrieval_post_resolved)
  have 3: "get_health_records_by_recent_days rt w (JStr s0) day
        = ([DirectoryGet], Inr (if ms = [] then msg_no_members else msg_not_my_member))"
    if h: "DirectoryGet \<in> set (fst (get_health_records_by_recent_days rt w (JStr s0) day))
        \<and> fetch_family_members_days rt w = Returned ms
        \<and> candidate_list (normalize_ascii_pinyin rt s0) ms = []"
  proof -
    from h directory_get_days [of rt w "JStr s0" day] obtain d' where
      "get_health_records_by_recent_days rt w (JStr s0) day
         = resolve_days rt w (normalize_ascii_pinyin rt s0) d'"
      by auto
    with h show ?thesis by (simp add: resolve_days_def)
  qed
  have 4: "analyze_health_data rt w (JStr s0) user_query
        = ([DirectoryGet], if ms' = [] then msg_no_members else msg_not_our_member)"
    if h: "DirectoryGet \<in> set (fst (analyze_health_data rt w (JStr s0) user_query))
        \<and> fetch_family_members_history rt w = Returned ms'
        \<and> candidate_list (normalize_ascii_pinyin rt s0) ms' = []"
  proof -
    from h directory_get_history [of rt w "JStr s0" user_query] have
      "analyze_health_data rt w (JStr s0) user_query
         = resolve_history rt w (normalize_ascii_pinyin rt s0) user_query"
      by auto
    with h show ?thesis by (simp add: resolve_history_def)
  qed
  from 1 2 3 4 show ?thesis by blast
qed

theorem downstream_query_only_for_resolved_member_witness:
  "HealthGet (ascii ''23'') 3 \<in> set (fst (get_health_records_by_recent_days example_rt
       example_world (JStr (ascii ''liuchengliang'')) (JInt 3)))
   \<and> (\<exists>m others evs.
         candidate_list (normalize_ascii_pinyin example_rt (ascii ''liuchengliang''))
           [\<lparr>uid = ascii ''23'', original_name = [21016, 25104, 33391],
              pinyin = ascii ''liuchengliang''\<rparr>,
            \<lparr>uid = ascii ''9'', original_name = ascii ''Tang Xiaohan'',
              pinyin = ascii ''tangxiaohan''\<rparr>] = m # others
       \<and> ascii ''23'' = uid m
       \<and> fst (get_health_records_by_recent_days example_rt example_world
                (JStr (ascii ''liuchengliang'')) (JInt 3))
           = DirectoryGet # HealthGet (uid m) 3 # evs)
   \<and> RetrievalPost (ascii ''23'') (JStr (ascii ''blood pressure''))
        \<in> set (fst (analyze_health_data example_rt example_world
              (JStr (ascii ''liuchengliang'')) (JStr (ascii ''blood pressure''))))
   \<and> get_health_records_by_recent_days example_rt example_world (JStr (ascii ''bob'')) (JInt 3)
       = ([DirectoryGet], Inr msg_not_my_member)
   \<and> analyze_health_data example_rt example_world (JStr (ascii ''bob''))
        (JStr (ascii ''blood pressure''))
       = ([DirectoryGet], msg_not_our_member)"
proof -
  let ?ms = "[\<lparr>uid = ascii ''23'', original_name = [21016, 25104, 33391],
                pinyin = ascii ''liuchengliang''\<rparr>,
              \<lparr>uid = ascii ''9'', original_name = ascii ''Tang Xiaohan'',
                pinyin = ascii ''tangxiaohan''\<rparr>]"
  note t = downstream_query_only_for_resolved_member
    [where u = "ascii ''23''" and d = 3 and rt = example_rt and w = example_world
      and name = "JStr (ascii ''liuchengliang'')" and day = "JInt 3"
      and u' = "ascii ''23''" and q' = "JStr (ascii ''blood pressure'')"
      and user_name = "JStr (ascii ''liuchengliang'')"
      and user_query = "JStr (ascii ''blood pressure'')"
      and ?s0.0 = "ascii ''bob''" and ms = ?ms and ms' = ?ms]
  have h1: "HealthGet (ascii ''23'') 3 \<in> set (fst (get_health_records_by_recent_days
      example_rt example_world (JStr (ascii ''liuchengliang'')) (JInt 3)))"
    by (simp add: example_days_liu)
  have h2: "RetrievalPost (ascii ''23'') (JStr (ascii ''blood pressure''))
      \<in> set (fst (analyze_health_data example_rt example_world
            (JStr (ascii ''liuchengliang'')) (JStr (ascii ''blood pressure''))))"
    by (simp add: example_history_liu)
  have h3: "DirectoryGet \<in> set (fst (get_health_records_by_recent_days example_rt
        example_world (JStr (ascii ''bob'')) (JInt 3)))
      \<and> DirectoryGet \<in> set (fst (analyze_health_data example_rt example_world
            (JStr (ascii ''bob'')) (JStr (ascii ''blood pressure''))))
      \<and> candidate_list (normalize_ascii_pinyin example_rt (ascii ''bob'')) ?ms = []"
    by (simp add: example_days_bob example_history_bob)
       (simp add: canon_defs candidate_list_filter)
  from t h1 obtain s members m others evs where r:
      "JStr (ascii ''liuchengliang'') = JStr s"
      "fetch_family_members_days example_rt example_world = Returned members"
      "candidate_list (normalize_ascii_pinyin example_rt s) members = m # others"
      "ascii ''23'' = uid m"
      "fst (get_health_records_by_recent_days example_rt example_world
              (JStr (ascii ''liuchengliang'')) (JInt 3))
         = DirectoryGet # HealthGet (uid m) 3 # evs"
    by blast
  from r(1) have s: "s = ascii ''liuchengliang''" by simp
  from r(2) example_members_days have ms: "members = ?ms" by simp
  from r(3,4,5) have c1: "\<exists>m others evs.
         candidate_list (normalize_ascii_pinyin example_rt (ascii ''liuchengliang'')) ?ms
           = m # others
       \<and> ascii ''23'' = uid m
       \<and> fst (get_health_records_by_recent_days example_rt example_world
                (JStr (ascii ''liuchengliang'')) (JInt 3))
           = DirectoryGet # HealthGet (uid m) 3 # evs"
    unfolding s ms by blast
  from t h3 example_members_days have c3:
    "get_health_records_by_recent_days example_rt example_world (JStr (ascii ''bob'')) (JInt 3)
       = ([DirectoryGet], Inr msg_not_my_member)"
    by simp
  from t h3 example_members_history have c4:
    "analyze_health_data example_rt example_world (JStr (ascii ''bob''))
        (JStr (ascii ''blood pressure''))
       = ([DirectoryGet], msg_not_our_member)"
    by simp
  from h1 c1 h2 c3 c4 show ?thesis by blast
qed

section \<open>Validation of the parameters\<close>

text \<open>
  C8. When \<open>int(day)\<close> raises or gives a number that is not positive, the tool issues no
  request at all and returns one of three fixed strings: the day message of the case
  ("should be" when \<open>int(day)\<close> raises, "must be" when it is not positive) if the name
  is a string that is not blank, the name message otherwise (the name is checked first).
\<close>

theorem invalid_day_rejected_locally:
  assumes "py_int rt day = None \<or> (\<exists>d. py_int rt day = Some d \<and> d \<le> 0)"
  shows "fst (get_health_records_by_recent_days rt w name day) = []
       \<and> snd (get_health_records_by_recent_days rt w name day)
           = Inr (if (\<exists>s. name = JStr s \<and> py_strip s \<noteq> [])
                  then (if py_int rt day = None then msg_day_not_int else msg_day_not_positive)
                  else msg_need_name)"
  using assms
  by (auto simp: get_health_records_by_recent_days_def split: json.splits option.splits)

theorem invalid_day_rejected_locally_witness:
  "py_int example_rt (JStr (ascii ''-1'')) = Some (- 1)
   \<and> get_health_records_by_recent_days example_rt example_world
        (JStr (ascii ''liuchengliang'')) (JStr (ascii ''-1''))
       = ([], Inr msg_day_not_positive)
   \<and> py_int example_rt (JStr (ascii ''three'')) = None
   \<and> get_health_records_by_recent_days example_rt example_world
        (JStr (ascii ''liuchengliang'')) (JStr (ascii ''three''))
       = ([], Inr msg_day_not_int)"
proof -
  have p1: "py_int example_rt (JStr (ascii ''-1'')) = Some (- 1)"
    by (simp add: py_int_def parse_int_def to_ascii_decimal_def is_ascii_def ascii_def
        is_c_space_def is_digit_def example_rt_def)
  have p2: "py_int example_rt (JStr (ascii ''three'')) = None"
    by (simp add: py_int_def parse_int_def to_ascii_decimal_def is_ascii_def ascii_def
        is_c_space_def is_digit_def example_rt_def)
  have n: "py_strip (ascii ''liuchengliang'') \<noteq> []"
    by (simp add: canon_defs)
  from p1 have h1: "py_int example_rt (JStr (ascii ''-1'')) = None
      \<or> (\<exists>d. py_int example_rt (JStr (ascii ''-1'')) = Some d \<and> d \<le> 0)"
    by simp
  from p2 have h2: "py_int example_rt (JStr (ascii ''three'')) = None
      \<or> (\<exists>d. py_int example_rt (JStr (ascii ''three'')) = Some d \<and> d \<le> 0)"
    by simp
  note t1 = invalid_day_rejected_locally [OF h1, of example_world
      "JStr (ascii ''liuchengliang'')"]
  note t2 = invalid_day_rejected_locally [OF h2, of example_world
      "JStr (ascii ''liuchengliang'')"]
  from t1 p1 n have c1: "get_health_records_by_recent_days example_rt example_world
        (JStr (ascii ''liuchengliang'')) (JStr (ascii ''-1''))
       = ([], Inr msg_day_not_positive)"
    by (simp add: prod_eq_iff)
  from t2 p2 n have c2: "get_health_records_by_recent_days example_rt example_world
        (JStr (ascii ''liuchengliang'')) (JStr (ascii ''three''))
       = ([], Inr msg_day_not_int)"
    by (simp add: prod_eq_iff)
  from p1 c1 p2 c2 show ?thesis by blast
qed

text \<open>
  C9. When the directory returns a JSON value that is neither a dict nor a list, both
  \<open>fetch_family_members\<close> return the empty roster (they return, they do not raise), and
  each tool that has fetched the directory returns the "no family member list" message
  after the directory request alone.
\<close>

theorem unexpected_directory_shape_is_empty_roster:
  assumes "directory w = Returned data"
    and "(\<forall>rows. data \<noteq> JList rows) \<and> (\<forall>kvs. data \<noteq> JDict kvs)"
  shows "fetch_family_members_days rt w = Returned []
       \<and> fetch_family_members_history rt w = Returned []
       \<and> (DirectoryGet \<in> set (fst (get_health_records_by_recent_days rt w name day)) \<longrightarrow>
            get_health_records_by_recent_days rt w name day
            = ([DirectoryGet], Inr msg_no_members))
       \<and> (DirectoryGet \<in> set (fst (analyze_health_data rt w user_name user_query)) \<longrightarrow>
            analyze_health_data rt w user_name user_query
            = ([DirectoryGet], msg_no_members))"
proof -
  from assms(2) have "parse_members_days rt data = []"
    by (cases data) (simp_all add: parse_members_days_def)
  with assms(1) have 1: "fetch_family_members_days rt w = Returned []"
    by (simp add: fetch_family_members_days_def)
  from assms(2) have "parse_members_history rt data = []"
    by (cases data) (simp_all add: parse_members_history_def)
  with assms(1) have 2: "fetch_family_members_history rt w = Returned []"
    by (simp add: fetch_family_members_history_def)
  have 3: "get_health_records_by_recent_days rt w name day
            = ([DirectoryGet], Inr msg_no_members)"
    if h: "DirectoryGet \<in> set (fst (get_health_records_by_recent_days rt w name day))"
  proof -
    from directory_get_days [OF h] obtain s d where
      "get_health_records_by_recent_days rt w name day
         = resolve_days rt w (normalize_ascii_pinyin rt s) d"
      by blast
    with 1 show ?thesis by (simp add: resolve_days_def)
  qed
  have 4: "analyze_health_data rt w user_name user_query = ([DirectoryGet], msg_no_members)"
    if h: "DirectoryGet \<in> set (fst (analyze_health_data rt w user_name user_query))"
  proof -
    from directory_get_history [OF h] obtain s where
      "analyze_health_data rt w user_name user_query
         = resolve_history rt w (normalize_ascii_pinyin rt s) user_query"
      by blast
    with 2 show ?thesis by (simp add: resolve_history_def)
  qed
  from 1 2 3 4 show ?thesis by blast
qed

theorem unexpected_directory_shape_is_empty_roster_witness:
  "directory scalar_world = Returned (JStr (ascii ''maintenance''))
   \<and> fetch_family_members_days example_rt scalar_world = Returned []
   \<and> fetch_family_members_history example_rt scalar_world = Returned []
   \<and> DirectoryGet \<in> set (fst (get_health_records_by_recent_days example_rt scalar_world
          (JStr (ascii ''liuchengliang'')) (JInt 3)))
   \<and> get_health_records_by_recent_days example_rt scalar_world
        (JStr (ascii ''liuchengliang'')) (JInt 3)
       = ([DirectoryGet], Inr msg_no_members)
   \<and> DirectoryGet \<in> set (fst (analyze_health_data example_rt scalar_world
          (JStr (ascii ''liuchengliang'')) (JStr (ascii ''blood pressure''))))
   \<and> analyze_health_data example_rt scalar_world
        (JStr (ascii ''liuchengliang'')) (JStr (ascii ''blood pressure''))
       = ([DirectoryGet], msg_no_members)"
proof -
  have h1: "directory scalar_world = Returned (JStr (ascii ''maintenance''))"
    by (simp add: scalar_world_def)
  have h2: "(\<forall>rows. JStr (ascii ''maintenance'') \<noteq> JList rows)
      \<and> (\<forall>kvs. JStr (ascii ''maintenance'') \<noteq> JDict kvs)"
    by simp
  have m: "fetch_family_members_days example_rt scalar_world = Returned []"
      "fetch_family_members_history example_rt scalar_world = Returned []"
    by (simp_all add: fetch_family_members_days_def fetch_family_members_history_def h1
        parse_members_days_def parse_members_history_def)
  have v: "py_strip (ascii ''liuchengliang'') \<noteq> []
      \<and> normalize_ascii_pinyin example_rt (ascii ''liuchengliang'') \<noteq> []"
    by (simp add: canon_defs)
  from v m have d1: "DirectoryGet \<in> set (fst (get_health_records_by_recent_days example_rt
      scalar_world (JStr (ascii ''liuchengliang'')) (JInt 3)))"
    by (simp add: get_health_records_by_recent_days_def resolve_days_def py_int_def)
  from v m have d2: "DirectoryGet \<in> set (fst (analyze_health_data example_rt scalar_world
      (JStr (ascii ''liuchengliang'')) (JStr (ascii ''blood pressure''))))"
    by (simp add: analyze_health_data_def resolve_history_def)
  note t = unexpected_directory_shape_is_empty_roster [OF h1 h2, of example_rt
      "JStr (ascii ''liuchengliang'')" "JInt 3" "JStr (ascii ''liuchengliang'')"
      "JStr (ascii ''blood pressure'')"]
  from t h1 d1 d2 show ?thesis by simp
qed

section \<open>The query name\<close>




section \<open>The business status of the health records\<close>

text \<open>
  C6, as stated, fails when the response's \<open>msg\<close> is empty: for the body
  \<open>{"code": 1, "msg": ""}\<close> the tool does not print the (empty) \<open>msg\<close> between the colon
  and the bracket but the placeholder "unknown error" of \<open>msg or ...\<close>.
\<close>

theorem empty_msg_prints_placeholder:
  "health empty_msg_world (ascii ''23'') 3
     = Returned (JDict [(ascii ''code'', JInt 1), (ascii ''msg'', JStr [])])
   \<and> get_health_records_by_recent_days example_rt empty_msg_world
        (JStr (ascii ''liuchengliang'')) (JInt 3)
       = ([DirectoryGet, HealthGet (ascii ''23'') 3],
          Inr (txt_data_failed @ txt_unknown_error @ txt_code_open @ ascii ''1'' @ txt_close))
   \<and> txt_data_failed @ txt_unknown_error @ txt_code_open @ ascii ''1'' @ txt_close
       \<noteq> txt_data_failed @ [] @ txt_code_open @ ascii ''1'' @ txt_close"
proof -
  have 1: "health empty_msg_world (ascii ''23'') 3
     = Returned (JDict [(ascii ''code'', JInt 1), (ascii ''msg'', JStr [])])"
    by (simp add: empty_msg_world_def)
  have 2: "get_health_records_by_recent_days example_rt empty_msg_world
        (JStr (ascii ''liuchengliang'')) (JInt 3)
       = ([DirectoryGet, HealthGet (ascii ''23'') 3],
          Inr (txt_data_failed @ txt_unknown_error @ txt_code_open @ ascii ''1'' @ txt_close))"
    by (simp add: tool_defs eval_defs empty_msg_world_def msg_business_def
        str_of_int_def digits_of.simps)
  have 3: "txt_data_failed @ txt_unknown_error @ txt_code_open @ ascii ''1'' @ txt_close
       \<noteq> txt_data_failed @ [] @ txt_code_open @ ascii ''1'' @ txt_close"
    by (simp add: txt_unknown_error_def)
  from 1 2 3 show ?thesis by blast
qed

text \<open>
  C6, amended. Whenever the tool has requested the health records of a uid and the
  response body is a JSON object, with \<open>code\<close> its \<open>"code"\<close> entry (\<open>None\<close> when absent)
  and \<open>msg\<close> its \<open>"msg"\<close> entry (the empty string when absent): if \<open>code != 0\<close> or
  \<open>msg != "success"\<close>, that request is the last event (the formatter is not called) and
  the result is "fetching the data failed: M (code=C)", where C is \<open>str(code)\<close> and M is
  \<open>str(msg)\<close> when \<open>msg\<close> is truthy and the fixed placeholder "unknown error" when it is
  not (missing, null, empty).
\<close>

theorem business_error_surfaced:
  assumes "HealthGet u d \<in> set (fst (get_health_records_by_recent_days rt w name day))"
    and "health w u d = Returned (JDict kvs)"
    and "code = (case map_of kvs (ascii ''code'') of Some x \<Rightarrow> x | None \<Rightarrow> JNull)"
    and "msg = (case map_of kvs (ascii ''msg'') of Some x \<Rightarrow> x | None \<Rightarrow> JStr [])"
    and "\<not> py_eq_int rt code 0 \<or> msg \<noteq> JStr (ascii ''success'')"
  shows "get_health_records_by_recent_days rt w name day
         = ([DirectoryGet, HealthGet u d],
            Inr (txt_data_failed @ (if truthy rt msg then py_str rt msg else txt_unknown_error)
                 @ txt_code_open @ py_str rt code @ txt_close))"
proof -
  from health_get_query [OF assms(1)] obtain m where u: "u = uid m"
    and t: "get_health_records_by_recent_days rt w name day
            = (DirectoryGet # fst (query_health rt w m d), snd (query_health rt w m d))"
    by blast
  from assms(2-5) u have "query_health rt w m d
         = ([HealthGet u d],
            Inr (txt_data_failed @ (if truthy rt msg then py_str rt msg else txt_unknown_error)
                 @ txt_code_open @ py_str rt code @ txt_close))"
    by (auto simp: query_health_def py_get_def bind_e_def msg_business_def py_or_def
        py_str_def)
  with t show ?thesis by simp
qed

theorem business_error_surfaced_witness:
  "HealthGet (ascii ''23'') 3 \<in> set (fst (get_health_records_by_recent_days example_rt
       example_world (JStr (ascii ''liuchengliang'')) (JInt 3)))
   \<and> health example_world (ascii ''23'') 3
     = Returned (JDict [(ascii ''code'', JInt 1), (ascii ''msg'', JStr (ascii ''busy''))])
   \<and> \<not> py_eq_int example_rt (JInt 1) 0
   \<and> get_health_records_by_recent_days example_rt example_world
        (JStr (ascii ''liuchengliang'')) (JInt 3)
       = ([DirectoryGet, HealthGet (ascii ''23'') 3],
          Inr (txt_data_failed @ ascii ''busy'' @ txt_code_open @ ascii ''1'' @ txt_close))"
proof -
  have h1: "HealthGet (ascii ''23'') 3 \<in> set (fst (get_health_records_by_recent_days
      example_rt example_world (JStr (ascii ''liuchengliang'')) (JInt 3)))"
    by (simp add: example_days_liu)
  have h2: "health example_world (ascii ''23'') 3
     = Returned (JDict [(ascii ''code'', JInt 1), (ascii ''msg'', JStr (ascii ''busy''))])"
    by (simp add: example_world_def)
  have h3: "JInt 1 = (case map_of [(ascii ''code'', JInt 1),
      (ascii ''msg'', JStr (ascii ''busy''))] (ascii ''code'') of Some x \<Rightarrow> x | None \<Rightarrow> JNull)"
    by (simp add: ascii_def)
  have h4: "JStr (ascii ''busy'') = (case map_of [(ascii ''code'', JInt 1),
      (ascii ''msg'', JStr (ascii ''busy''))] (ascii ''msg'') of Some x \<Rightarrow> x | None \<Rightarrow> JStr [])"
    by (simp add: ascii_def)
  have e: "\<not> py_eq_int example_rt (JInt 1) 0"
    by (simp add: py_eq_int_def)
  then have h5: "\<not> py_eq_int example_rt (JInt 1) 0 \<or> JStr (ascii ''busy'') \<noteq> JStr (ascii ''success'')"
    by simp
  have s1: "py_str example_rt (JInt 1) = ascii ''1''"
    by (simp add: py_str_def str_of_int_def digits_of.simps ascii_def)
  have s2: "truthy example_rt (JStr (ascii ''busy''))"
      "py_str example_rt (JStr (ascii ''busy'')) = ascii ''busy''"
    by (simp_all add: truthy_def py_str_def ascii_def)
  note t = business_error_surfaced [OF h1 h2 h3 h4 h5]
  from t s1 s2 have c:
    "get_health_records_by_recent_days example_rt example_world
        (JStr (ascii ''liuchengliang'')) (JInt 3)
       = ([DirectoryGet, HealthGet (ascii ''23'') 3],
          Inr (txt_data_failed @ ascii ''busy'' @ txt_code_open @ ascii ''1'' @ txt_close))"
    by simp
  from h1 h2 e c show ?thesis by simp
qed

section \<open>The members of a roster\<close>

text \<open>
  family_history_check.py adds no member for a row that is not a list of two elements
  or more, nor for a list whose identifier or name is null, blank or has an empty key.
\<close>

lemma member_of_row_history_excluded:
  "(\<forall>u n rest. row \<noteq> JList (u # n # rest)) \<Longrightarrow> member_of_row_history rt row = None"
  "u = JNull \<or> n = JNull \<or> py_strip (py_str rt u) = [] \<or> py_strip (py_str rt n) = []
     \<or> name_to_lower_pinyin rt (py_strip (py_str rt n)) = []
   \<Longrightarrow> member_of_row_history rt (JList (u # n # rest)) = None"
  by (auto simp: member_of_row_history_def push_history_def Let_def
      split: json.splits list.splits)

text \<open>
  family_check_days.py adds no member for a row that is \<open>None\<close>, a bool, a number or a
  dict, nor for a list that is too short or whose identifier or name is null or empty
  or has an empty key. A row that is a string is not among them.
\<close>

lemma member_of_row_days_excluded:
  "row = JNull \<or> (\<exists>b. row = JBool b) \<or> (\<exists>i. row = JInt i) \<or> (\<exists>f. row = JFloat f)
     \<or> (\<exists>kvs. row = JDict kvs) \<or> row = JList [] \<or> (\<exists>u. row = JList [u])
   \<Longrightarrow> member_of_row_days rt row = None"
  "u = JNull \<or> n = JNull \<or> py_str rt u = [] \<or> py_str rt n = []
     \<or> name_to_lower_pinyin rt (py_str rt n) = []
   \<Longrightarrow> member_of_row_days rt (JList (u # n # rest)) = None"
  by (auto simp: member_of_row_days_def field_days_def py_len_def py_index_def bind_e_def
      Let_def split: list.splits)

text \<open>
  C4 holds for family_history_check.py (the three lemmas above on it) and fails for
  family_check_days.py on a row that is a string of two characters or more: \<open>len\<close> and
  the subscripts do not raise on a string, so its first two characters become the uid
  and the name of a member. For the response \<open>{"0": ["23", NAME], "status": "ok"}\<close> the
  roster has a second member with uid "o" and key "k", and the query name "k" sends a
  health-records request for the uid "o"; the other server builds one member.
\<close>

theorem string_row_becomes_member:
  "fetch_family_members_days example_rt string_row_world = Returned
     [\<lparr>uid = ascii ''23'', original_name = [21016, 25104, 33391],
        pinyin = ascii ''liuchengliang''\<rparr>,
      \<lparr>uid = ascii ''o'', original_name = ascii ''k'', pinyin = ascii ''k''\<rparr>]
   \<and> fetch_family_members_history example_rt string_row_world = Returned
     [\<lparr>uid = ascii ''23'', original_name = [21016, 25104, 33391],
        pinyin = ascii ''liuchengliang''\<rparr>]
   \<and> fst (get_health_records_by_recent_days example_rt string_row_world
            (JStr (ascii ''k'')) (JInt 3))
       = [DirectoryGet, HealthGet (ascii ''o'') 3]"
proof -
  have 1: "fetch_family_members_days example_rt string_row_world = Returned
     [\<lparr>uid = ascii ''23'', original_name = [21016, 25104, 33391],
        pinyin = ascii ''liuchengliang''\<rparr>,
      \<lparr>uid = ascii ''o'', original_name = ascii ''k'', pinyin = ascii ''k''\<rparr>]"
    by (simp add: eval_defs string_row_world_def)
  have 2: "fetch_family_members_history example_rt string_row_world = Returned
     [\<lparr>uid = ascii ''23'', original_name = [21016, 25104, 33391],
        pinyin = ascii ''liuchengliang''\<rparr>]"
    by (simp add: eval_defs string_row_world_def)
  have 3: "fst (get_health_records_by_recent_days example_rt string_row_world
            (JStr (ascii ''k'')) (JInt 3))
       = [DirectoryGet, HealthGet (ascii ''o'') 3]"
    by (simp add: tool_defs eval_defs string_row_world_def)
  from 1 2 3 show ?thesis by blast
qed

section \<open>The list of names\<close>

lemma uniq_append: "uniq seen (xs @ ys) = uniq seen xs @ uniq (seen \<union> set xs) ys"
  by (induction xs arbitrary: seen) (auto simp: insert_absorb)

lemma uniq_filter: "uniq (S \<union> T) ys = filter (\<lambda>n. n \<notin> S) (uniq T ys)"
proof (induction ys arbitrary: T)
  case Nil
  show ?case by simp
next
  case (Cons n ns)
  have "S \<union> insert n T = insert n (S \<union> T)" by blast
  with Cons [of "insert n T"] Cons [of T] show ?case
    by (auto simp: insert_absorb)
qed

lemma set_uniq: "set (uniq seen ns) = set ns - seen"
  by (induction ns arbitrary: seen) auto

lemma distinct_uniq: "distinct (uniq seen ns)"
  by (induction ns arbitrary: seen) (auto simp: set_uniq)

lemma uniq_append_filter:
  "uniq {} (xs @ ys) = uniq {} xs @ filter (\<lambda>n. n \<notin> set (uniq {} xs)) (uniq {} ys)"
proof -
  have "uniq (set xs) ys = filter (\<lambda>n. n \<notin> set xs) (uniq {} ys)"
    using uniq_filter [of "set xs" "{}" ys] by simp
  then show ?thesis
    by (simp add: uniq_append set_uniq)
qed

lemma name_of_row_listed:
  assumes "truthy rt name_val" and "py_strip (py_str rt name_val) \<noteq> []"
  shows "name_of_row rt (JList (uid_val # name_val # rest))
         = Some (py_strip (py_str rt name_val))"
  using assms by (simp add: name_of_row_def)

lemma distinct_extract_names: "distinct (extract_names rt data)"
  by (cases data) (simp_all add: extract_names_def distinct_uniq)

text \<open>
  C10, as stated, fails on a display name that is not empty but blank: the row
  \<open>[null, " "]\<close> is a list of two elements whose second element is the non-empty string
  of one space, and no name is listed for it.
\<close>

theorem blank_name_not_listed:
  "ascii '' '' \<noteq> []
   \<and> extract_names example_rt (JList [JList [JNull, JStr (ascii '' '')]]) = []
   \<and> list_family_members example_rt blank_name_world = ([DirectoryGet], msg_list_empty)"
proof -
  have 1: "ascii '' '' \<noteq> []"
    by (simp add: ascii_def)
  have 2: "extract_names example_rt (JList [JList [JNull, JStr (ascii '' '')]]) = []"
    by (simp add: extract_names_def name_of_row_def List.map_filter_def truthy_def
        py_str_def canon_defs)
  from 2 have 3: "list_family_members example_rt blank_name_world
      = ([DirectoryGet], msg_list_empty)"
    by (simp add: list_family_members_def blank_name_world_def Let_def)
  from 1 2 3 show ?thesis by blast
qed

text \<open>
  C10, amended. \<open>_extract_names\<close> never reads position 0 of a row: for every row that is
  a list of two elements or more whose element at position 1 is truthy and, as text, not
  blank, the stripped text is listed, whatever stands at position 0 (null and the empty
  string included), in both shapes of the response. The names are distinct, and the
  names of later rows follow those of earlier rows, without the ones already listed
  (first-occurrence order): a roster without rows lists nothing, a single row lists
  its name if it has one, and this holds for a list of rows and for a mapping, whose
  names are those of the list of its values in the order of the mapping. The tool
  reports their number and joins them. For the
  roster of the single row \<open>[null, "Bob"]\<close> one name is listed although neither server
  builds a member from it.
\<close>

theorem names_listed_without_identifier_check:
  "(truthy rt name_val \<and> py_strip (py_str rt name_val) \<noteq> [] \<longrightarrow>
       (JList (uid_val # name_val # rest) \<in> set rows \<longrightarrow>
          py_strip (py_str rt name_val) \<in> set (extract_names rt (JList rows)))
     \<and> ((k, JList (uid_val # name_val # rest)) \<in> set kvs \<longrightarrow>
          py_strip (py_str rt name_val) \<in> set (extract_names rt (JDict kvs))))
   \<and> distinct (extract_names rt data)
   \<and> extract_names rt (JList (rows1 @ rows2))
       = extract_names rt (JList rows1)
         @ filter (\<lambda>n. n \<notin> set (extract_names rt (JList rows1)))
             (extract_names rt (JList rows2))
   \<and> extract_names rt (JDict kvs') = extract_names rt (JList (map snd kvs'))
   \<and> extract_names rt (JDict (kvs1 @ kvs2))
       = extract_names rt (JDict kvs1)
         @ filter (\<lambda>n. n \<notin> set (extract_names rt (JDict kvs1)))
             (extract_names rt (JDict kvs2))
   \<and> extract_names rt (JList []) = []
   \<and> extract_names rt (JList [row])
       = (case name_of_row rt row of None \<Rightarrow> [] | Some n \<Rightarrow> [n])
   \<and> (directory w = Returned data \<and> extract_names rt data \<noteq> [] \<longrightarrow>
        list_family_members rt w
        = ([DirectoryGet],
           txt_family_has @ str_of_int (int (length (extract_names rt data)))
             @ txt_members_they_are @ join txt_comma (extract_names rt data)))
   \<and> extract_names rt (JList [JList [JNull, JStr (ascii ''Bob'')]]) = [ascii ''Bob'']
   \<and> parse_members_days rt (JList [JList [JNull, JStr (ascii ''Bob'')]]) = []
   \<and> parse_members_history rt (JList [JList [JNull, JStr (ascii ''Bob'')]]) = []"
proof -
  have 1: "py_strip (py_str rt name_val) \<in> set (extract_names rt (JList rows))"
    if "truthy rt name_val \<and> py_strip (py_str rt name_val) \<noteq> []"
      and "JList (uid_val # name_val # rest) \<in> set rows"
  proof -
    from that(1) have "name_of_row rt (JList (uid_val # name_val # rest))
        = Some (py_strip (py_str rt name_val))"
      by (simp add: name_of_row_listed)
    with that(2) have "py_strip (py_str rt name_val)
        \<in> set (List.map_filter (name_of_row rt) rows)"
      by (auto simp: in_map_filter)
    then show ?thesis
      by (simp add: extract_names_def set_uniq)
  qed
  have 2: "py_strip (py_str rt name_val) \<in> set (extract_names rt (JDict kvs))"
    if "truthy rt name_val \<and> py_strip (py_str rt name_val) \<noteq> []"
      and "(k, JList (uid_val # name_val # rest)) \<in> set kvs"
  proof -
    from that(1) have "name_of_row rt (JList (uid_val # name_val # rest))
        = Some (py_strip (py_str rt name_val))"
      by (simp add: name_of_row_listed)
    moreover from that(2) have "JList (uid_val # name_val # rest) \<in> set (map snd kvs)"
      by force
    ultimately have "py_strip (py_str rt name_val)
        \<in> set (List.map_filter (name_of_row rt) (map snd kvs))"
      unfolding in_map_filter by blast
    then show ?thesis
      by (simp add: extract_names_def set_uniq)
  qed
  have 3: "distinct (extract_names rt data)"
    by (rule distinct_extract_names)
  have 4: "extract_names rt (JList (rows1 @ rows2))
       = extract_names rt (JList rows1)
         @ filter (\<lambda>n. n \<notin> set (extract_names rt (JList rows1)))
             (extract_names rt (JList rows2))"
    by (simp add: extract_names_def List.map_filter_def uniq_append_filter)
  have 9: "extract_names rt (JDict kvs') = extract_names rt (JList (map snd kvs'))"
    by (simp add: extract_names_def)
  have 10: "extract_names rt (JDict (kvs1 @ kvs2))
       = extract_names rt (JDict kvs1)
         @ filter (\<lambda>n. n \<notin> set (extract_names rt (JDict kvs1)))
             (extract_names rt (JDict kvs2))"
    by (simp add: extract_names_def List.map_filter_def uniq_append_filter)
  have 11: "extract_names rt (JList []) = []"
    by (simp add: extract_names_def List.map_filter_def)
  have 12: "extract_names rt (JList [row])
       = (case name_of_row rt row of None \<Rightarrow> [] | Some n \<Rightarrow> [n])"
    by (cases "name_of_row rt row") (simp_all add: extract_names_def List.map_filter_def)
  have 5: "list_family_members rt w
        = ([DirectoryGet],
           txt_family_has @ str_of_int (int (length (extract_names rt data)))
             @ txt_members_they_are @ join txt_comma (extract_names rt data))"
    if "directory w = Returned data \<and> extract_names rt data \<noteq> []"
    using that by (simp add: list_family_members_def msg_list_def Let_def)
  have s: "py_strip (ascii ''Bob'') = ascii ''Bob''"
    by (simp add: canon_defs)
  have 6: "extract_names rt (JList [JList [JNull, JStr (ascii ''Bob'')]]) = [ascii ''Bob'']"
    unfolding extract_names_def name_of_row_def List.map_filter_def truthy_def py_str_def
    by (simp add: s) (simp add: ascii_def)
  have 7: "parse_members_days rt (JList [JList [JNull, JStr (ascii ''Bob'')]]) = []"
    by (simp add: parse_members_days_def List.map_filter_def member_of_row_days_excluded)
  have 8: "parse_members_history rt (JList [JList [JNull, JStr (ascii ''Bob'')]]) = []"
    by (simp add: parse_members_history_def List.map_filter_def
        member_of_row_history_excluded)
  from 1 2 3 4 5 6 7 8 9 10 11 12 show ?thesis by blast
qed

theorem names_listed_without_identifier_check_witness:
  "truthy example_rt (JStr (ascii ''Bob''))
   \<and> py_strip (py_str example_rt (JStr (ascii ''Bob''))) = ascii ''Bob''
   \<and> JList [JNull, JStr (ascii ''Bob'')] \<in> set unchecked_rows
   \<and> ascii ''Bob'' \<in> set (extract_names example_rt (JList unchecked_rows))
   \<and> extract_names example_rt (JList unchecked_rows) = [ascii ''Bob'', ascii ''Ann'']
   \<and> extract_names example_rt
        (JDict [(ascii ''0'', JList [JNull, JStr (ascii ''Ann'')]),
                (ascii ''1'', JList [JNull, JStr (ascii ''Bob'')]),
                (ascii ''2'', JList [JNull, JStr (ascii '' Ann '')])])
       = [ascii ''Ann'', ascii ''Bob'']
   \<and> list_family_members example_rt unchecked_world
       = ([DirectoryGet],
          txt_family_has @ ascii ''2'' @ txt_members_they_are @ ascii ''Bob'' @ txt_comma @ ascii ''Ann'')
   \<and> parse_members_days example_rt (JList unchecked_rows) = []
   \<and> parse_members_history example_rt (JList unchecked_rows) = []"
proof -
  note t = names_listed_without_identifier_check
    [where rt = example_rt and name_val = "JStr (ascii ''Bob'')" and uid_val = JNull
      and rest = "[]" and rows = unchecked_rows and w = unchecked_world
      and data = "JList unchecked_rows"
      and kvs' = "[(ascii ''0'', JList [JNull, JStr (ascii ''Ann'')]),
                   (ascii ''1'', JList [JNull, JStr (ascii ''Bob'')]),
                   (ascii ''2'', JList [JNull, JStr (ascii '' Ann '')])]"]
  have a: "truthy example_rt (JStr (ascii ''Bob''))
      \<and> py_strip (py_str example_rt (JStr (ascii ''Bob''))) = ascii ''Bob''
      \<and> ascii ''Bob'' \<noteq> []
      \<and> JList [JNull, JStr (ascii ''Bob'')] \<in> set unchecked_rows"
    by (simp add: truthy_def py_str_def canon_defs unchecked_rows_def)
  from t a have b: "ascii ''Bob'' \<in> set (extract_names example_rt (JList unchecked_rows))"
    by simp
  have c: "extract_names example_rt (JList unchecked_rows) = [ascii ''Bob'', ascii ''Ann'']"
    by (simp add: extract_names_def name_of_row_def List.map_filter_def truthy_def
        py_str_def canon_defs unchecked_rows_def)
  have c': "extract_names example_rt
        (JList (map snd [(ascii ''0'', JList [JNull, JStr (ascii ''Ann'')]),
                         (ascii ''1'', JList [JNull, JStr (ascii ''Bob'')]),
                         (ascii ''2'', JList [JNull, JStr (ascii '' Ann '')])]))
       = [ascii ''Ann'', ascii ''Bob'']"
    by (simp add: extract_names_def name_of_row_def List.map_filter_def truthy_def
        py_str_def canon_defs)
  from t c' have c'': "extract_names example_rt
        (JDict [(ascii ''0'', JList [JNull, JStr (ascii ''Ann'')]),
                (ascii ''1'', JList [JNull, JStr (ascii ''Bob'')]),
                (ascii ''2'', JList [JNull, JStr (ascii '' Ann '')])])
       = [ascii ''Ann'', ascii ''Bob'']"
    by simp
  have c0: "extract_names example_rt
        (JDict [(ascii ''0'', JList [JNull, JStr (ascii ''Ann'')]),
                (ascii ''1'', JList [JNull, JStr (ascii ''Bob'')]),
                (ascii ''2'', JList [JNull, JStr (ascii '' Ann '')])])
       = [ascii ''Ann'', ascii ''Bob'']"
    by (simp add: extract_names_def name_of_row_def List.map_filter_def truthy_def
        py_str_def canon_defs)
  have d: "directory unchecked_world = Returned (JList unchecked_rows)"
    by (simp add: unchecked_world_def)
  from t c d have e: "list_family_members example_rt unchecked_world
       = ([DirectoryGet],
          txt_family_has @ ascii ''2'' @ txt_members_they_are @ ascii ''Bob'' @ txt_comma @ ascii ''Ann'')"
    by (simp add: str_of_int_def digits_of.simps ascii_def)
  have f: "parse_members_days example_rt (JList unchecked_rows) = []"
    by (simp add: parse_members_days_def List.map_filter_def unchecked_rows_def
        member_of_row_days_excluded py_str_def)
  have g: "parse_members_history example_rt (JList unchecked_rows) = []"
    by (simp add: parse_members_history_def List.map_filter_def unchecked_rows_def
        member_of_row_history_excluded py_str_def py_strip_def)
  from a b c c'' c0 e f g show ?thesis by blast
qed

section \<open>The report on a body with missing fields\<close>

lemma py_get_entry: "py_get (JDict kvs) k d = Inr (entry (JDict kvs) k d)"
  by (simp add: py_get_def entry_def)

lemma object_or_falsy_or:
  assumes "object_or_falsy rt v"
  shows "\<exists>kvs. py_or rt v (JDict []) = JDict kvs"
  using assms by (cases v) (auto simp: object_or_falsy_def py_or_def)

lemma zonghe_lines_total:
  assumes "object_or_falsy rt (entry (JDict kvs) (ascii ''zonghe'') JNull)"
  shows "\<exists>zs. zonghe_lines rt (JDict kvs) = Inr zs
           \<and> (\<not> truthy rt (entry (JDict kvs) (ascii ''zonghe'') JNull) \<longrightarrow> zs = [])"
proof -
  from object_or_falsy_or [OF assms] obtain zk where
    z: "py_or rt (entry (JDict kvs) (ascii ''zonghe'') JNull) (JDict []) = JDict zk"
    by blast
  have f: "py_or rt v (JDict []) = JDict []" if "\<not> truthy rt v" for v
    using that by (simp add: py_or_def)
  show ?thesis
  proof (cases "truthy rt (entry (JDict kvs) (ascii ''zonghe'') JNull)")
    case True
    then show ?thesis
      by (simp add: zonghe_lines_def py_get_entry bind_e_def z Let_def)
  next
    case False
    then show ?thesis
      by (simp add: zonghe_lines_def py_get_entry bind_e_def f Let_def truthy_def)
  qed
qed








lemma str_of_int_0: "str_of_int 0 = ascii ''0''"
  by (simp add: str_of_int_def digits_of.simps ascii_def)

lemma py_str_0: "py_str rt (JInt 0) = ascii ''0''"
  by (simp add: py_str_def str_of_int_0)




lemma bind_e_Inr: "bind_e (Inr x) f = f x"
  by (simp add: bind_e_def)

lemma bind_e_Inl: "bind_e (Inl e) f = Inl e"
  by (simp add: bind_e_def)

lemma not_object_raises:
  assumes "\<not> object_or_falsy rt v"
  shows "truthy rt (py_or rt v (JDict []))
       \<and> py_get (py_or rt v (JDict [])) k d = Inl (AttributeError v)"
  using assms by (cases v) (auto simp: object_or_falsy_def py_or_def py_get_def)

lemma not_record_is_dict_or_raises:
  assumes "\<not> record_shaped rt r"
  shows "py_get r (ascii ''result'') JNull = Inl (AttributeError r)
       \<or> (\<exists>kvs. r = JDict kvs \<and> \<not> object_or_falsy rt (entry r (ascii ''result'') JNull))"
  using assms by (cases r) (auto simp: record_shaped_def py_get_def)

lemma bp_block_raises:
  assumes "\<not> record_shaped rt r"
  shows "\<exists>e. bp_block rt idx r = Inl e"
proof -
  from not_record_is_dict_or_raises [OF assms] show ?thesis
  proof
    assume "py_get r (ascii ''result'') JNull = Inl (AttributeError r)"
    then show ?thesis by (simp add: bp_block_def bind_e_def)
  next
    assume "\<exists>kvs. r = JDict kvs \<and> \<not> object_or_falsy rt (entry r (ascii ''result'') JNull)"
    then obtain kvs where r: "r = JDict kvs"
      and n: "\<not> object_or_falsy rt (entry (JDict kvs) (ascii ''result'') JNull)" by blast
    from not_object_raises [OF n] show ?thesis
      by (simp add: r bp_block_def bind_e_def py_get_entry Let_def)
  qed
qed

lemma decg_block_raises:
  assumes "\<not> record_shaped rt r"
  shows "\<exists>e. decg_block rt idx r = Inl e"
proof -
  from not_record_is_dict_or_raises [OF assms] show ?thesis
  proof
    assume "py_get r (ascii ''result'') JNull = Inl (AttributeError r)"
    then show ?thesis by (simp add: decg_block_def bind_e_def)
  next
    assume "\<exists>kvs. r = JDict kvs \<and> \<not> object_or_falsy rt (entry r (ascii ''result'') JNull)"
    then obtain kvs where r: "r = JDict kvs"
      and n: "\<not> object_or_falsy rt (entry (JDict kvs) (ascii ''result'') JNull)" by blast
    from not_object_raises [OF n] show ?thesis
      by (simp add: r decg_block_def bind_e_def py_get_entry Let_def)
  qed
qed

lemma ecg_block_raises:
  assumes "\<not> ecg_record_shaped rt r"
  shows "\<exists>e. ecg_block rt idx r = Inl e"
proof (cases "record_shaped rt r")
  case False
  from not_record_is_dict_or_raises [OF False] show ?thesis
  proof
    assume "py_get r (ascii ''result'') JNull = Inl (AttributeError r)"
    then show ?thesis by (simp add: ecg_block_def bind_e_def)
  next
    assume "\<exists>kvs. r = JDict kvs \<and> \<not> object_or_falsy rt (entry r (ascii ''result'') JNull)"
    then obtain kvs where r: "r = JDict kvs"
      and n: "\<not> object_or_falsy rt (entry (JDict kvs) (ascii ''result'') JNull)" by blast
    from not_object_raises [OF n] show ?thesis
      by (simp add: r ecg_block_def bind_e_def py_get_entry Let_def)
  qed
next
  case True
  then obtain kvs where r: "r = JDict kvs"
    by (cases r) (simp_all add: record_shaped_def)
  with True have "object_or_falsy rt (entry (JDict kvs) (ascii ''result'') JNull)"
    by (simp add: record_shaped_def)
  from object_or_falsy_or [OF this] obtain rk where
    z: "py_or rt (entry (JDict kvs) (ascii ''result'') JNull) (JDict []) = JDict rk"
    by blast
  from assms True r z have "\<exists>e. qtyc_text rt (entry (JDict rk) (ascii ''qtyc'') JNull) = Inl e"
    by (cases "entry (JDict rk) (ascii ''qtyc'') JNull")
       (simp_all add: ecg_record_shaped_def qtyc_text_def)
  then obtain e where "qtyc_text rt (entry (JDict rk) (ascii ''qtyc'') JNull) = Inl e" by blast
  then show ?thesis
    by (simp add: r ecg_block_def bind_e_def py_get_entry Let_def z)
qed

lemma blocks_raises:
  assumes "\<not> list_all ok rs" and "\<And>idx r. \<not> ok r \<Longrightarrow> \<exists>e. f idx r = Inl e"
  shows "\<exists>e. blocks f idx rs = Inl e"
  using assms(1)
proof (induction rs arbitrary: idx)
  case Nil
  then show ?case by simp
next
  case (Cons r rs)
  show ?case
  proof (cases "f idx r")
    case (Inl e)
    then show ?thesis by (simp add: bind_e_def)
  next
    case (Inr ls)
    with assms(2) [of r idx] have "ok r" by auto
    with Cons.prems have "\<not> list_all ok rs" by simp
    from Cons.IH [OF this] obtain e where "blocks f (Suc idx) rs = Inl e" by blast
    with Inr show ?thesis by (simp add: bind_e_def)
  qed
qed

lemma history_section_truthy:
  assumes "truthy rt v"
  shows "history_section rt title none_line f (py_or rt v (JList []))
         = bind_e (py_iter v) (\<lambda>xs. bind_e (blocks f 1 xs) (\<lambda>ls. Inr (title # ls)))"
  using assms by (simp add: history_section_def py_or_def)

lemma history_section_raises:
  assumes "\<not> records_shaped rt ok v"
    and "\<And>idx r. \<not> ok r \<Longrightarrow> \<exists>e. f idx r = Inl e"
    and "\<And>r. ok r \<Longrightarrow> \<exists>kvs. r = JDict kvs"
  shows "\<exists>e. history_section rt title none_line f (py_or rt v (JList [])) = Inl e"
proof -
  have items: "\<exists>e. blocks f 1 xs = Inl e" if "\<not> list_all ok xs" for xs
    using that assms(2) by (rule blocks_raises)
  have str: "\<not> ok (JStr s)" for s
  proof
    assume "ok (JStr s)"
    from assms(3) [OF this] show False by simp
  qed
  have t: "truthy rt v"
    using assms(1) by (cases v) (auto simp: records_shaped_def truthy_def)
  have "\<exists>e. bind_e (py_iter v) (\<lambda>xs. bind_e (blocks f 1 xs) (\<lambda>ls. Inr (title # ls))) = Inl e"
  proof (cases v)
    case (JList rs)
    with assms(1) have "\<not> list_all ok rs" by (simp add: records_shaped_def)
    from items [OF this] obtain e where "blocks f 1 rs = Inl e" by blast
    with JList show ?thesis by (simp add: py_iter_def bind_e_def)
  next
    case (JStr s)
    with t obtain c cs where s: "s = c # cs" by (cases s) (simp_all add: truthy_def)
    from str have "\<not> list_all ok (map (\<lambda>c. JStr [c]) s)" by (simp add: s)
    from items [OF this] obtain e where "blocks f 1 (map (\<lambda>c. JStr [c]) s) = Inl e" by blast
    with JStr show ?thesis by (simp add: py_iter_def bind_e_def)
  next
    case (JDict d)
    with t obtain kv kvs where d: "d = kv # kvs" by (cases d) (simp_all add: truthy_def)
    from str have "\<not> list_all ok (map (\<lambda>kv. JStr (fst kv)) d)" by (simp add: d)
    from items [OF this] obtain e where "blocks f 1 (map (\<lambda>kv. JStr (fst kv)) d) = Inl e"
      by blast
    with JDict show ?thesis by (simp add: py_iter_def bind_e_def)
  next
    case JNull
    then show ?thesis by (simp add: py_iter_def bind_e_def)
  next
    case (JBool b)
    then show ?thesis by (simp add: py_iter_def bind_e_def)
  next
    case (JInt i)
    then show ?thesis by (simp add: py_iter_def bind_e_def)
  next
    case (JFloat x)
    then show ?thesis by (simp add: py_iter_def bind_e_def)
  qed
  with t show ?thesis by (simp add: history_section_truthy)
qed

lemma record_shaped_dict: "record_shaped rt r \<Longrightarrow> \<exists>kvs. r = JDict kvs"
  by (cases r) (simp_all add: record_shaped_def)

lemma ecg_record_shaped_dict:
  assumes "ecg_record_shaped rt r"
  shows "\<exists>kvs. r = JDict kvs"
proof -
  from assms have "record_shaped rt r" by (simp add: ecg_record_shaped_def)
  then show ?thesis by (rule record_shaped_dict)
qed

lemma bp_section_raises:
  assumes "\<not> records_shaped rt (record_shaped rt) v"
  shows "\<exists>e. history_section rt title none_line (bp_block rt) (py_or rt v (JList [])) = Inl e"
proof (rule history_section_raises [where ok = "record_shaped rt"])
  show "\<not> records_shaped rt (record_shaped rt) v" by fact
  show "\<exists>e. bp_block rt idx r = Inl e" if "\<not> record_shaped rt r" for idx r
    using that by (rule bp_block_raises)
  show "\<exists>kvs. r = JDict kvs" if "record_shaped rt r" for r
    using that by (rule record_shaped_dict)
qed

lemma ecg_section_raises:
  assumes "\<not> records_shaped rt (ecg_record_shaped rt) v"
  shows "\<exists>e. history_section rt title none_line (ecg_block rt) (py_or rt v (JList [])) = Inl e"
proof (rule history_section_raises [where ok = "ecg_record_shaped rt"])
  show "\<not> records_shaped rt (ecg_record_shaped rt) v" by fact
  show "\<exists>e. ecg_block rt idx r = Inl e" if "\<not> ecg_record_shaped rt r" for idx r
    using that by (rule ecg_block_raises)
  show "\<exists>kvs. r = JDict kvs" if "ecg_record_shaped rt r" for r
    using that by (rule ecg_record_shaped_dict)
qed

lemma decg_section_raises:
  assumes "\<not> records_shaped rt (record_shaped rt) v"
  shows "\<exists>e. history_section rt title none_line (decg_block rt) (py_or rt v (JList [])) = Inl e"
proof (rule history_section_raises [where ok = "record_shaped rt"])
  show "\<not> records_shaped rt (record_shaped rt) v" by fact
  show "\<exists>e. decg_block rt idx r = Inl e" if "\<not> record_shaped rt r" for idx r
    using that by (rule decg_block_raises)
  show "\<exists>kvs. r = JDict kvs" if "record_shaped rt r" for r
    using that by (rule record_shaped_dict)
qed

text \<open>
  The shape is exact: on every body that is not \<open>body_shaped\<close> the formatter raises.
\<close>

lemma report_raises_on_other_shapes:
  assumes "\<not> body_shaped rt data"
  shows "\<exists>e. format_health_lines rt display_name days data = Inl e"
proof (cases data)
  case (JDict kvs)
  show ?thesis
  proof (cases "object_or_falsy rt (entry (JDict kvs) (ascii ''zonghe'') JNull)")
    case False
    from not_object_raises [OF False] have "\<exists>e. zonghe_lines rt (JDict kvs) = Inl e"
      by (simp add: zonghe_lines_def py_get_entry bind_e_def Let_def)
    then show ?thesis
      by (auto simp: JDict format_health_lines_def bind_e_def)
  next
    case z: True
    from zonghe_lines_total [OF z] obtain zs where zs: "zonghe_lines rt (JDict kvs) = Inr zs"
      by blast
    show ?thesis
    proof (cases "object_or_falsy rt (entry (JDict kvs) (ascii ''historyRecord'') JNull)")
      case False
      from not_object_raises [OF False] show ?thesis
        by (simp add: JDict format_health_lines_def zs py_get_entry bind_e_def Let_def)
    next
      case h: True
      from object_or_falsy_or [OF h] obtain hk where
        hk: "py_or rt (entry (JDict kvs) (ascii ''historyRecord'') JNull) (JDict []) = JDict hk"
        by blast
      then have hk': "history_of rt (JDict kvs) = JDict hk"
        by (simp add: history_of_def)
      let ?bp = "history_section rt (bp_title days) (bp_none days) (bp_block rt)
           (py_or rt (entry (JDict hk) key_blood_pressure JNull) (JList []))"
      let ?ecg = "history_section rt (ecg_title days) (ecg_none days) (ecg_block rt)
           (py_or rt (entry (JDict hk) key_resting_ecg JNull) (JList []))"
      let ?decg = "history_section rt (decg_title days) (decg_none days) (decg_block rt)
           (py_or rt (entry (JDict hk) key_ambulatory_ecg JNull) (JList []))"
      have unfold: "format_health_lines rt display_name days (JDict kvs)
          = bind_e ?bp (\<lambda>bs. bind_e ?ecg (\<lambda>es. bind_e ?decg (\<lambda>ds.
              Inr ([report_header display_name days, report_title display_name days,
                    report_rule] @ zs @ bs @ es @ ds @ [disclaimer]))))"
        by (simp add: format_health_lines_def zs py_get_entry bind_e_Inr hk Let_def)
      from assms JDict z h hk' have
        "\<not> records_shaped rt (record_shaped rt) (entry (JDict hk) key_blood_pressure JNull)
         \<or> \<not> records_shaped rt (ecg_record_shaped rt) (entry (JDict hk) key_resting_ecg JNull)
         \<or> \<not> records_shaped rt (record_shaped rt) (entry (JDict hk) key_ambulatory_ecg JNull)"
        by (auto simp: body_shaped_def)
      then have "(\<exists>e. ?bp = Inl e) \<or> (\<exists>e. ?ecg = Inl e) \<or> (\<exists>e. ?decg = Inl e)"
        using bp_section_raises ecg_section_raises decg_section_raises by blast
      then show ?thesis
        unfolding unfold JDict by (auto simp: bind_e_def split: sum.splits)
    qed
  qed
qed (simp_all add: format_health_lines_def zonghe_lines_def py_get_def bind_e_def)




end
